theory Spec2Isabelle
  imports Complex_Main
begin

section \<open>Strings and numbers of the platform\<close>

text \<open>
  Text is modelled as \<^typ>\<open>string\<close>: the UTF-8 bytes of a well-formed JavaScript string.
  Substring search, splitting at line feeds and decimal rendering mean the same on these
  bytes as on the platform's code units. Counts are natural numbers. The percentages are
  computed as the platform computes them, in binary64 (\<open>toDouble\<close> below); the caller's
  aggregates and the sums of durations are exact reals.
\<close>

text \<open>\<^verbatim>\<open>s.startsWith(p)\<close> and \<^verbatim>\<open>s.includes(p)\<close>.\<close>

fun startsWith :: "string \<Rightarrow> string \<Rightarrow> bool" where
  "startsWith s [] = True"
| "startsWith [] (p # ps) = False"
| "startsWith (c # cs) (p # ps) = (c = p \<and> startsWith cs ps)"

fun str_includes :: "string \<Rightarrow> string \<Rightarrow> bool" where
  "str_includes [] p = (p = [])"
| "str_includes (c # cs) p = (startsWith (c # cs) p \<or> str_includes cs p)"

text \<open>
  The white space of the platform, which \<^verbatim>\<open>\s\<close> matches and \<^verbatim>\<open>trim\<close> strips: tab,
  line feed, vertical tab, form feed, carriage return, space, and the characters U+00A0,
  U+1680, U+2000 to U+200A, U+2028, U+2029, U+202F, U+205F, U+3000 and U+FEFF, each as its
  UTF-8 bytes.
\<close>

definition whiteSpace :: "string list" where
  "whiteSpace =
     [[CHR 0x09], [CHR 0x0A], [CHR 0x0B], [CHR 0x0C], [CHR 0x0D], [CHR 0x20],
      [CHR 0xC2, CHR 0xA0],
      [CHR 0xE1, CHR 0x9A, CHR 0x80],
      [CHR 0xE2, CHR 0x80, CHR 0x80], [CHR 0xE2, CHR 0x80, CHR 0x81],
      [CHR 0xE2, CHR 0x80, CHR 0x82], [CHR 0xE2, CHR 0x80, CHR 0x83],
      [CHR 0xE2, CHR 0x80, CHR 0x84], [CHR 0xE2, CHR 0x80, CHR 0x85],
      [CHR 0xE2, CHR 0x80, CHR 0x86], [CHR 0xE2, CHR 0x80, CHR 0x87],
      [CHR 0xE2, CHR 0x80, CHR 0x88], [CHR 0xE2, CHR 0x80, CHR 0x89],
      [CHR 0xE2, CHR 0x80, CHR 0x8A],
      [CHR 0xE2, CHR 0x80, CHR 0xA8], [CHR 0xE2, CHR 0x80, CHR 0xA9],
      [CHR 0xE2, CHR 0x80, CHR 0xAF],
      [CHR 0xE2, CHR 0x81, CHR 0x9F],
      [CHR 0xE3, CHR 0x80, CHR 0x80],
      [CHR 0xEF, CHR 0xBB, CHR 0xBF]]"

text \<open>
  \<open>dropLeading ws s\<close> removes from the front of \<open>s\<close> every sequence of \<open>ws\<close> that it
  starts with, until it starts with none.
\<close>

definition leading :: "string list \<Rightarrow> string \<Rightarrow> string option" where
  "leading ws s = List.find (\<lambda>w. w \<noteq> [] \<and> startsWith s w) ws"

lemma leading_shorter:
  assumes "leading ws s = Some w"
  shows "length (drop (length w) s) < length s"
proof -
  from assms have "w \<noteq> []" "startsWith s w"
    by (auto simp: leading_def dest: find_Some_iff [THEN iffD1])
  then show ?thesis by (cases s; cases w) simp_all
qed

function dropLeading :: "string list \<Rightarrow> string \<Rightarrow> string" where
  "dropLeading ws s =
     (case leading ws s of None \<Rightarrow> s | Some w \<Rightarrow> dropLeading ws (drop (length w) s))"
  by pat_completeness auto
termination
  by (relation "measure (\<lambda>(ws, s). length s)") (auto dest: leading_shorter)

declare dropLeading.simps [simp del]

text \<open>\<^verbatim>\<open>s.trimStart()\<close>, \<^verbatim>\<open>s.trimEnd()\<close> and \<^verbatim>\<open>s.trim()\<close>.\<close>

definition trimStart :: "string \<Rightarrow> string" where
  "trimStart s = dropLeading whiteSpace s"

definition trimEnd :: "string \<Rightarrow> string" where
  "trimEnd s = rev (dropLeading (map rev whiteSpace) (rev s))"

definition trim :: "string \<Rightarrow> string" where
  "trim s = trimEnd (trimStart s)"

text \<open>\<^verbatim>\<open>s.split('\n')\<close>: the pieces between line feeds; never the empty list.\<close>

fun splitLines :: "string \<Rightarrow> string list" where
  "splitLines [] = [[]]"
| "splitLines (c # cs) =
     (if c = CHR 0x0A then [] # splitLines cs
      else (case splitLines cs of l # ls \<Rightarrow> (c # l) # ls | [] \<Rightarrow> [[c]]))"

text \<open>\<^verbatim>\<open>xs.join(sep)\<close>.\<close>

fun join :: "string \<Rightarrow> string list \<Rightarrow> string" where
  "join sep [] = []"
| "join sep [x] = x"
| "join sep (x # y # ys) = x @ sep @ join sep (y # ys)"

text \<open>Decimal rendering of a number inside a template literal.\<close>

definition digit :: "nat \<Rightarrow> char" where
  "digit d = ''0123456789'' ! d"

fun show_nat :: "nat \<Rightarrow> string" where
  "show_nat n = (if n < 10 then [digit n] else show_nat (n div 10) @ [digit (n mod 10)])"

declare show_nat.simps [simp del]

definition show_int :: "int \<Rightarrow> string" where
  "show_int i = (if i < 0 then CHR ''-'' # show_nat (nat (- i)) else show_nat (nat i))"

text \<open>\<^verbatim>\<open>s.padStart(2, '0')\<close>.\<close>

definition padStart2 :: "string \<Rightarrow> string" where
  "padStart2 s = replicate (2 - length s) CHR ''0'' @ s"

text \<open>
  The numbers of the platform are binary64 values, and each division and multiplication
  rounds its exact result to the nearest of them, ties to the even significand.
  \<open>binade k x\<close> is the exponent \<open>e\<close> with \<open>2 ^ e \<le> x < 2 ^ (e + 1)\<close>, found in at most \<open>k\<close>
  steps; \<open>ulp e\<close> is the distance between neighbouring values of that exponent, and the
  exponent \<open>- 1022\<close> is the least. \<open>toDouble\<close> is the rounding, for magnitudes below
  \<open>2 ^ 1024\<close>, where the platform has finite values.
\<close>

definition roundHalfEven :: "real \<Rightarrow> int" where
  "roundHalfEven x =
     (let n = \<lfloor>x\<rfloor>
      in if x - of_int n < 1 / 2 then n
         else if 1 / 2 < x - of_int n then n + 1
         else if even n then n else n + 1)"

fun binade :: "nat \<Rightarrow> real \<Rightarrow> int" where
  "binade 0 x = 0"
| "binade (Suc k) x =
     (if x < 1 then binade k (2 * x) - 1 else if 2 \<le> x then binade k (x / 2) + 1 else 0)"

definition ulp :: "int \<Rightarrow> real" where
  "ulp e = (if 52 \<le> e then 2 ^ nat (e - 52) else 1 / 2 ^ nat (52 - e))"

definition toDouble :: "real \<Rightarrow> real" where
  "toDouble x =
     (if x = 0 then 0
      else (let u = ulp (max (binade 1100 \<bar>x\<bar>) (- 1022))
            in sgn x * of_int (roundHalfEven (\<bar>x\<bar> / u)) * u))"

text \<open>\<^verbatim>\<open>Math.round\<close>: the nearest integer, halves upwards; it is exact.\<close>

definition jsround :: "real \<Rightarrow> int" where
  "jsround x = \<lfloor>x + 1 / 2\<rfloor>"

text \<open>\<^verbatim>\<open>Math.round((a / b) * 100)\<close> on two counts.\<close>

definition roundPercent :: "nat \<Rightarrow> nat \<Rightarrow> int" where
  "roundPercent a b = jsround (toDouble (toDouble (real a / real b) * 100))"

text \<open>
  A string-valued field of a request object: \<open>None\<close> when the field is absent, undefined or
  null. The empty string is present and falsy.
\<close>

definition truthy :: "string option \<Rightarrow> bool" where
  "truthy v = (case v of None \<Rightarrow> False | Some s \<Rightarrow> s \<noteq> [])"

text \<open>\<^verbatim>\<open>v || d\<close> on a string field and on a numeric field.\<close>

definition orElse :: "string option \<Rightarrow> string \<Rightarrow> string" where
  "orElse v d = (case v of None \<Rightarrow> d | Some s \<Rightarrow> if s = [] then d else s)"

definition orZero :: "real option \<Rightarrow> real" where
  "orZero v = (case v of None \<Rightarrow> 0 | Some x \<Rightarrow> x)"

text \<open>\<^verbatim>\<open>v || null\<close> on a string field: the empty string becomes null.\<close>

definition orNull :: "string option \<Rightarrow> string option" where
  "orNull v = (case v of None \<Rightarrow> None | Some s \<Rightarrow> if s = [] then None else Some s)"

text \<open>\<^verbatim>\<open>field === 'literal'\<close>.\<close>

definition is_str :: "string option \<Rightarrow> string \<Rightarrow> bool" where
  "is_str v s = (v = Some s)"

section \<open>Schedule items and dates\<close>

text \<open>
  A date-valued field keeps the text the caller sent (\<open>raw\<close>) and the instant
  \<^verbatim>\<open>new Date(raw).getTime()\<close> denotes, in milliseconds since the epoch (\<open>instant\<close>,
  \<open>None\<close> for an Invalid Date). The platform's date parser itself is not modelled.
\<close>

record jsdate =
  raw :: string
  instant :: "int option"

text \<open>
  A task or an event as the caller sends it: an object whose text fields are strings and
  whose duration is a number. Every field is optional: \<open>None\<close> is an absent (undefined or
  null) field.
\<close>

record item =
  title :: "string option"
  itype :: "string option"
  category :: "string option"
  priority :: "string option"
  status :: "string option"
  dueDate :: "jsdate option"
  startTime :: "jsdate option"
  endTime :: "jsdate option"
  estimatedDuration :: "real option"

definition date_truthy :: "jsdate option \<Rightarrow> bool" where
  "date_truthy d = (case d of None \<Rightarrow> False | Some j \<Rightarrow> raw j \<noteq> [])"

text \<open>\<^verbatim>\<open>new Date(field || '').getTime()\<close>: \<open>None\<close> is NaN.\<close>

definition date_time :: "jsdate option \<Rightarrow> int option" where
  "date_time d = (case d of None \<Rightarrow> None | Some j \<Rightarrow> if raw j = [] then None else instant j)"

text \<open>
  The local-time getters of \<^verbatim>\<open>Date\<close>, for a server whose zone is a fixed offset \<open>tz\<close>
  (milliseconds east of UTC); daylight saving is not modelled. \<open>civil\<close> is the proleptic
  Gregorian date of a day number counted from 1970-01-01.
\<close>

definition msPerDay :: int where
  "msPerDay = 86400000"

definition civil :: "int \<Rightarrow> int \<times> int \<times> int" where
  "civil z =
     (let z' = z + 719468;
          era = z' div 146097;
          doe = z' - era * 146097;
          yoe = (doe - doe div 1460 + doe div 36524 - doe div 146096) div 365;
          doy = doe - (365 * yoe + yoe div 4 - yoe div 100);
          mp = (5 * doy + 2) div 153;
          d = doy - (153 * mp + 2) div 5 + 1;
          m = (if mp < 10 then mp + 3 else mp - 9);
          y = yoe + era * 400 + (if m \<le> 2 then 1 else 0)
      in (y, m, d))"

definition getFullYear :: "int \<Rightarrow> int \<Rightarrow> int" where
  "getFullYear tz t = fst (civil ((t + tz) div msPerDay))"

definition getMonth :: "int \<Rightarrow> int \<Rightarrow> int" where
  "getMonth tz t = fst (snd (civil ((t + tz) div msPerDay))) - 1"

definition getDate :: "int \<Rightarrow> int \<Rightarrow> int" where
  "getDate tz t = snd (snd (civil ((t + tz) div msPerDay)))"

definition getDay :: "int \<Rightarrow> int \<Rightarrow> int" where
  "getDay tz t = ((t + tz) div msPerDay + 4) mod 7"

definition getHours :: "int \<Rightarrow> int \<Rightarrow> int" where
  "getHours tz t = ((t + tz) mod msPerDay) div 3600000"

definition getMinutes :: "int \<Rightarrow> int \<Rightarrow> int" where
  "getMinutes tz t = (((t + tz) mod msPerDay) div 60000) mod 60"

definition getSeconds :: "int \<Rightarrow> int \<Rightarrow> int" where
  "getSeconds tz t = (((t + tz) mod msPerDay) div 1000) mod 60"

definition getMilliseconds :: "int \<Rightarrow> int \<Rightarrow> int" where
  "getMilliseconds tz t = ((t + tz) mod msPerDay) mod 1000"

text \<open>What the caller sends beside the items.\<close>

type_synonym heatmap = "(string \<times> nat) list"

record taskStats =
  ts_completedTasks :: "real option"
  ts_overdueTasks :: "real option"
  ts_productivityScore :: "real option"
  ts_averageCompletionTime :: "real option"
  ts_weeklyEventTime :: "real option"
  ts_heatmapData :: "heatmap option"
  ts_heatmapAnalysis :: "string option"

record timeAccuracy =
  ta_accuracy :: "real option"
  ta_averageOverrun :: "real option"

record heatmapInfo =
  hi_heatmapData :: "heatmap option"
  hi_heatmapAnalysis :: "string option"
  hi_weeklyEventTime :: "real option"

text \<open>A number that may be NaN (\<open>None\<close>); every comparison with NaN is false.\<close>

type_synonym jsnum = "real option"

definition num_gt :: "jsnum \<Rightarrow> real \<Rightarrow> bool" where
  "num_gt x y = (case x of None \<Rightarrow> False | Some v \<Rightarrow> v > y)"

definition num_lt :: "jsnum \<Rightarrow> real \<Rightarrow> bool" where
  "num_lt x y = (case x of None \<Rightarrow> False | Some v \<Rightarrow> v < y)"

definition num_ge :: "jsnum \<Rightarrow> real \<Rightarrow> bool" where
  "num_ge x y = (case x of None \<Rightarrow> False | Some v \<Rightarrow> v \<ge> y)"

definition num_le :: "jsnum \<Rightarrow> real \<Rightarrow> bool" where
  "num_le x y = (case x of None \<Rightarrow> False | Some v \<Rightarrow> v \<le> y)"

text \<open>An exception of the platform, as a value.\<close>

datatype jserror = TypeError

section \<open>The stat encoders\<close>

subsection \<open>createAnalyticsContext\<close>

definition categories :: "string list" where
  "categories = [''academic'', ''work'', ''personal'', ''health'', ''social'']"

definition priorities :: "string list" where
  "priorities = [''urgent'', ''high'', ''medium'', ''low'']"

definition isEvent :: "item \<Rightarrow> bool" where
  "isEvent i = is_str (itype i) ''event''"

text \<open>\<^verbatim>\<open>item.type === 'task' || !item.type\<close>.\<close>

definition isTaskItem :: "item \<Rightarrow> bool" where
  "isTaskItem i = (is_str (itype i) ''task'' \<or> \<not> truthy (itype i))"

definition categoryStat :: "item list \<Rightarrow> string \<Rightarrow> string" where
  "categoryStat allItems c =
     c @ '','' @ show_nat (length (filter (\<lambda>i. is_str (category i) c) allItems))"

text \<open>
  One deadline of a priority row. An Invalid Date has NaN getters, which print as
  \<^verbatim>\<open>NaN\<close> and are not padded.
\<close>

definition encodeDeadline :: "int \<Rightarrow> jsdate \<Rightarrow> string" where
  "encodeDeadline tz d =
     (case instant d of
        None \<Rightarrow> ''NaN:NaN:NaN.NaN:NaN.NaN:NaN''
      | Some t \<Rightarrow>
          padStart2 (show_int (getHours tz t)) @ '':'' @
          padStart2 (show_int (getMinutes tz t)) @ '':'' @
          padStart2 (show_int (getSeconds tz t)) @ ''.'' @
          show_int (getMilliseconds tz t) @ '':'' @
          show_int (getDate tz t) @ ''.'' @
          show_int (getMonth tz t + 1) @ '':'' @
          show_int (getFullYear tz t))"

text \<open>\<^verbatim>\<open>total > 0 ? (completed / total) * 100 : 0\<close>, in binary64.\<close>

definition completionRateOf :: "nat \<Rightarrow> nat \<Rightarrow> real" where
  "completionRateOf completed totalN =
     (if totalN > 0 then toDouble (toDouble (real completed / real totalN) * 100) else 0)"

definition priorityTasks :: "item list \<Rightarrow> string \<Rightarrow> item list" where
  "priorityTasks taskItems p = filter (\<lambda>t. is_str (priority t) p) taskItems"

definition deadlinesOf :: "int \<Rightarrow> item list \<Rightarrow> string list" where
  "deadlinesOf tz ts =
     map (\<lambda>t. encodeDeadline tz (the (dueDate t))) (filter (\<lambda>t. date_truthy (dueDate t)) ts)"

definition priorityStat :: "int \<Rightarrow> item list \<Rightarrow> string \<Rightarrow> string" where
  "priorityStat tz taskItems p =
     (let pts = priorityTasks taskItems p;
          completed = length (filter (\<lambda>t. is_str (status t) ''completed'') pts);
          totalN = length pts;
          completionRate = completionRateOf completed totalN;
          deadlines = deadlinesOf tz pts;
          deadlineString = (if length deadlines > 0 then join '','' deadlines else [])
      in p @ '','' @ show_nat totalN @ '','' @ show_nat completed @ '','' @
         show_int (jsround completionRate) @ '','' @ deadlineString)"

record analyticsContext =
  ac_totalEvents :: nat
  ac_totalTasks :: nat
  ac_totalItems :: nat
  ac_completedTasks :: real
  ac_overdueTasks :: real
  ac_productivityScore :: real
  ac_averageCompletionTime :: real
  ac_timeEstimationAccuracy :: real
  ac_averageOverrun :: real
  ac_categoryStats :: "string list"
  ac_priorityStats :: "string list"
  ac_weeklyEventTime :: real
  ac_completionRate :: real
  ac_events :: "item list"
  ac_tasks :: "item list"
  ac_heatmapData :: "heatmap option"
  ac_heatmapAnalysis :: "string option"

text \<open>
  \<open>tasks\<close> and \<open>taskStats\<close> are \<open>None\<close> when the argument is undefined or null: the
  function reads a property of each without a guard, which throws a TypeError. The other
  two arguments are read with \<^verbatim>\<open>?.\<close>. The heat map is an object when it is present, so
  \<^verbatim>\<open>|| null\<close> leaves it as it is; the analysis is a string. The caller's count of
  completed tasks is any number, and the overall completion rate is given as the exact
  value of the expression; the platform returns the binary64 value nearest to it.
\<close>

definition createAnalyticsContext ::
  "int \<Rightarrow> item list option \<Rightarrow> taskStats option \<Rightarrow> timeAccuracy option \<Rightarrow> heatmapInfo option
     \<Rightarrow> jserror + analyticsContext" where
  "createAnalyticsContext tz tasks taskStats timeAccuracy heatmapInfo =
     (case tasks of
        None \<Rightarrow> Inl TypeError
      | Some ts \<Rightarrow>
     (case taskStats of
        None \<Rightarrow> Inl TypeError
      | Some st \<Rightarrow>
          (let events = filter isEvent ts;
               taskItems = filter isTaskItem ts;
               totalEvents = length events;
               totalTasks = length taskItems;
               completedTasks = orZero (ts_completedTasks st);
               allItems = events @ taskItems
           in Inr \<lparr>
                ac_totalEvents = totalEvents,
                ac_totalTasks = totalTasks,
                ac_totalItems = totalEvents + totalTasks,
                ac_completedTasks = completedTasks,
                ac_overdueTasks = orZero (ts_overdueTasks st),
                ac_productivityScore = orZero (ts_productivityScore st),
                ac_averageCompletionTime = orZero (ts_averageCompletionTime st),
                ac_timeEstimationAccuracy = orZero (Option.bind timeAccuracy ta_accuracy),
                ac_averageOverrun = orZero (Option.bind timeAccuracy ta_averageOverrun),
                ac_categoryStats = map (categoryStat allItems) categories,
                ac_priorityStats = map (priorityStat tz taskItems) priorities,
                ac_weeklyEventTime = orZero (Option.bind heatmapInfo hi_weeklyEventTime),
                ac_completionRate =
                  (if totalTasks > 0 then (completedTasks / real totalTasks) * 100 else 0),
                ac_events = events,
                ac_tasks = taskItems,
                ac_heatmapData = Option.bind heatmapInfo hi_heatmapData,
                ac_heatmapAnalysis = orNull (Option.bind heatmapInfo hi_heatmapAnalysis) \<rparr>)))"

subsection \<open>createTasksContext\<close>

text \<open>
  The function counts into two plain objects, keyed by what the items carry. A plain object
  has its own properties, here an association list in the order of their creation, and
  inherits the members of \<^verbatim>\<open>Object.prototype\<close>, which a read of a key that is not its
  own finds. \<^verbatim>\<open>Object.keys\<close> lists the own keys: those that are array indices (the
  decimal numerals of the integers below \<open>2 ^ 32 - 1\<close>, without leading zeros) first, in
  ascending order, then the other keys in the order of their creation.
\<close>

definition protoMembers :: "string list" where
  "protoMembers =
     [''constructor'', ''__defineGetter__'', ''__defineSetter__'', ''hasOwnProperty'',
      ''__lookupGetter__'', ''__lookupSetter__'', ''isPrototypeOf'', ''propertyIsEnumerable'',
      ''toString'', ''valueOf'', ''__proto__'', ''toLocaleString'']"

definition isDigit :: "char \<Rightarrow> bool" where
  "isDigit c = (c \<in> set ''0123456789'')"

definition indexValue :: "string \<Rightarrow> int" where
  "indexValue k = foldl (\<lambda>n c. 10 * n + (of_char c - 48)) 0 k"

definition isArrayIndex :: "string \<Rightarrow> bool" where
  "isArrayIndex k =
     (k \<noteq> [] \<and> list_all isDigit k \<and> (k = ''0'' \<or> hd k \<noteq> CHR ''0'') \<and>
      indexValue k < 4294967295)"

definition keyOrder :: "string list \<Rightarrow> string list" where
  "keyOrder ks =
     sort_key indexValue (filter isArrayIndex ks) @ filter (\<lambda>k. \<not> isArrayIndex k) ks"

definition objectKeys :: "(string \<times> 'v) list \<Rightarrow> string list" where
  "objectKeys obj = keyOrder (map fst obj)"

text \<open>\<^verbatim>\<open>obj[k] = v\<close> on an own key, or on a key that the assignment creates.\<close>

fun setOwn :: "string \<Rightarrow> 'v \<Rightarrow> (string \<times> 'v) list \<Rightarrow> (string \<times> 'v) list" where
  "setOwn k v [] = [(k, v)]"
| "setOwn k v ((k', v') # kvs) =
     (if k = k' then (k', v) # kvs else (k', v') # setOwn k v kvs)"

text \<open>
  A slot of \<^verbatim>\<open>categoryCount\<close> holds a number or a string. The first count of a category
  that names a member of \<^verbatim>\<open>Object.prototype\<close> reads the inherited value, which is
  truthy, so \<^verbatim>\<open>+ 1\<close> appends to its text and every later count appends to that string.
  \<open>inheritedText\<close> is that text as Node prints it: the prototype object itself for
  \<^verbatim>\<open>__proto__\<close>, a native function for the other members. An assignment to
  \<^verbatim>\<open>__proto__\<close> calls the setter of the prototype, which ignores a string, and creates
  no property.
\<close>

datatype slot = Num nat | Str string

definition inheritedText :: "string \<Rightarrow> string" where
  "inheritedText k =
     (if k = ''__proto__'' then ''[object Object]''
      else ''function '' @ (if k = ''constructor'' then ''Object'' else k) @ ''() { [native code] }'')"

text \<open>\<^verbatim>\<open>categoryCount[category] = (categoryCount[category] || 0) + 1\<close>.\<close>

definition bumpCount :: "string \<Rightarrow> (string \<times> slot) list \<Rightarrow> (string \<times> slot) list" where
  "bumpCount k obj =
     (case map_of obj k of
        Some (Num n) \<Rightarrow> setOwn k (Num (n + 1)) obj
      | Some (Str s) \<Rightarrow> setOwn k (Str (s @ ''1'')) obj
      | None \<Rightarrow>
          if k \<in> set protoMembers then
            (if k = ''__proto__'' then obj else setOwn k (Str (inheritedText k @ ''1'')) obj)
          else setOwn k (Num 1) obj)"

definition categoryCount :: "item list \<Rightarrow> (string \<times> slot) list" where
  "categoryCount tasks = foldl (\<lambda>obj t. bumpCount (orElse (category t) ''other'') obj) [] tasks"

text \<open>The text of a slot in a template literal.\<close>

definition show_slot :: "slot \<Rightarrow> string" where
  "show_slot v = (case v of Num n \<Rightarrow> show_nat n | Str s \<Rightarrow> s)"

definition categoryToken :: "(string \<times> slot) list \<Rightarrow> string \<Rightarrow> string" where
  "categoryToken obj c = c @ '','' @ show_slot (the (map_of obj c))"

record priorityData =
  pd_total :: nat
  pd_completed :: nat
  pd_deadlines :: "string list"

definition tally :: "item \<Rightarrow> priorityData \<Rightarrow> priorityData" where
  "tally t d =
     \<lparr> pd_total = pd_total d + 1,
       pd_completed = (if is_str (status t) ''completed'' then pd_completed d + 1 else pd_completed d),
       pd_deadlines =
         (if date_truthy (dueDate t) then pd_deadlines d @ [raw (the (dueDate t))]
          else pd_deadlines d) \<rparr>"

text \<open>
  One round of the loop over the tasks that fills \<^verbatim>\<open>priorityCount\<close>. A priority that
  names a member of \<^verbatim>\<open>Object.prototype\<close> reads the inherited value, which is truthy: no
  row is created, the two increments write \<^verbatim>\<open>NaN\<close> properties onto the inherited
  object (which no function of this file reads back, and which is not modelled), and
  \<^verbatim>\<open>.deadlines\<close> is undefined, so that \<^verbatim>\<open>.push\<close> throws a TypeError when the task has
  a due date.
\<close>

definition bumpPriority ::
  "item \<Rightarrow> (string \<times> priorityData) list \<Rightarrow> jserror + (string \<times> priorityData) list" where
  "bumpPriority t obj =
     (let k = orElse (priority t) ''none''
      in case map_of obj k of
           Some d \<Rightarrow> Inr (setOwn k (tally t d) obj)
         | None \<Rightarrow>
             if k \<in> set protoMembers then
               (if date_truthy (dueDate t) then Inl TypeError else Inr obj)
             else Inr (setOwn k (tally t \<lparr> pd_total = 0, pd_completed = 0, pd_deadlines = [] \<rparr>) obj))"

fun priorityCountFrom ::
  "(string \<times> priorityData) list \<Rightarrow> item list \<Rightarrow> jserror + (string \<times> priorityData) list" where
  "priorityCountFrom obj [] = Inr obj"
| "priorityCountFrom obj (t # ts) =
     (case bumpPriority t obj of
        Inl e \<Rightarrow> Inl e
      | Inr obj' \<Rightarrow> priorityCountFrom obj' ts)"

definition priorityCount :: "item list \<Rightarrow> jserror + (string \<times> priorityData) list" where
  "priorityCount tasks = priorityCountFrom [] tasks"

text \<open>\<^verbatim>\<open>total > 0 ? Math.round((completed / total) * 100) : 0\<close>.\<close>

definition roundedRate :: "nat \<Rightarrow> nat \<Rightarrow> int" where
  "roundedRate completed totalN = (if totalN > 0 then roundPercent completed totalN else 0)"

definition priorityRow :: "(string \<times> priorityData) list \<Rightarrow> string \<Rightarrow> string" where
  "priorityRow obj p =
     (let d = the (map_of obj p)
      in p @ '','' @ show_nat (pd_total d) @ '','' @ show_nat (pd_completed d) @ '','' @
         show_int (roundedRate (pd_completed d) (pd_total d)) @ '','' @
         (if length (pd_deadlines d) > 0 then join '','' (pd_deadlines d) else []))"

record deadline =
  dl_title :: "string option"
  dl_dueDate :: "jsdate option"
  dl_priority :: string
  dl_category :: "string option"
  dl_type :: "string option"

text \<open>
  \<^verbatim>\<open>t.type === 'event' ? (t.startTime || t.dueDate || '') : (t.dueDate || '')\<close>;
  \<open>None\<close> is the empty string.
\<close>

definition deadlineDate :: "item \<Rightarrow> jsdate option" where
  "deadlineDate t =
     (if isEvent t then
        (if date_truthy (startTime t) then startTime t
         else if date_truthy (dueDate t) then dueDate t else None)
      else if date_truthy (dueDate t) then dueDate t else None)"

text \<open>
  The comparator of the sort, \<^verbatim>\<open>dateA.getTime() - dateB.getTime()\<close>: \<open>None\<close> is NaN, the
  difference with an Invalid Date.
\<close>

definition compareDates :: "item \<Rightarrow> item \<Rightarrow> jsnum" where
  "compareDates a b =
     (case (date_time (deadlineDate a), date_time (deadlineDate b)) of
        (Some x, Some y) \<Rightarrow> Some (real_of_int (x - y))
      | _ \<Rightarrow> None)"

text \<open>
  \<^verbatim>\<open>Array.prototype.sort\<close> is a parameter wherever it is called: with a comparator that
  returns NaN the order it leaves is up to the platform. \<open>stableSort\<close> is one such sort, a
  stable insertion sort that reads NaN as 0, for the evaluation of examples.
\<close>

type_synonym arraySort = "(item \<Rightarrow> item \<Rightarrow> jsnum) \<Rightarrow> item list \<Rightarrow> item list"

fun insertSorted :: "('a \<Rightarrow> 'a \<Rightarrow> jsnum) \<Rightarrow> 'a \<Rightarrow> 'a list \<Rightarrow> 'a list" where
  "insertSorted cmp x [] = [x]"
| "insertSorted cmp x (y # ys) =
     (if num_lt (cmp x y) 0 then x # y # ys else y # insertSorted cmp x ys)"

definition stableSort :: "('a \<Rightarrow> 'a \<Rightarrow> jsnum) \<Rightarrow> 'a list \<Rightarrow> 'a list" where
  "stableSort cmp xs = foldl (\<lambda>acc x. insertSorted cmp x acc) [] xs"

definition toDeadline :: "item \<Rightarrow> deadline" where
  "toDeadline t =
     \<lparr> dl_title = title t,
       dl_dueDate = deadlineDate t,
       dl_priority = orElse (priority t) ''none'',
       dl_category = category t,
       dl_type = itype t \<rparr>"

text \<open>
  \<^verbatim>\<open>new Date(t.dueDate || '') < new Date()\<close>: false when the due date is absent or
  invalid.
\<close>

definition isOverdue :: "int \<Rightarrow> item \<Rightarrow> bool" where
  "isOverdue now t =
     (\<not> isEvent t \<and> \<not> is_str (status t) ''completed'' \<and>
      (case date_time (dueDate t) of None \<Rightarrow> False | Some d \<Rightarrow> d < now))"

text \<open>The fields the guard for an empty collection leaves out are \<open>None\<close>.\<close>

record tasksContext =
  tc_totalTasks :: nat
  tc_totalEvents :: "nat option"
  tc_totalItems :: "nat option"
  tc_pendingTasks :: nat
  tc_inProgressTasks :: nat
  tc_completedTasks :: nat
  tc_overdueTasks :: nat
  tc_urgentTasks :: nat
  tc_highPriorityTasks :: nat
  tc_productivityScore :: "int option"
  tc_completionRate :: "int option"
  tc_weeklyEventTime :: "real option"
  tc_categoryStats :: "string list option"
  tc_priorityStats :: "string list option"
  tc_upcomingDeadlines :: "deadline list"
  tc_heatmapData :: "heatmap option"
  tc_heatmapAnalysis :: "string option"

definition count :: "('a \<Rightarrow> bool) \<Rightarrow> 'a list \<Rightarrow> nat" where
  "count P xs = length (filter P xs)"

text \<open>\<^verbatim>\<open>events.reduce\<close> over \<^verbatim>\<open>estimatedDuration\<close>; a duration of 0 is falsy.\<close>

definition sumEstimatedDuration :: "item list \<Rightarrow> real" where
  "sumEstimatedDuration events =
     foldl (\<lambda>acc e.
        (case estimatedDuration e of
           None \<Rightarrow> acc
         | Some d \<Rightarrow> if d = 0 then acc else acc + d)) 0 events"

text \<open>
  The result is \<open>Inl\<close> of the exception when the loop over the priorities throws; nothing
  else in the function can.
\<close>

definition createTasksContext ::
  "arraySort \<Rightarrow> int \<Rightarrow> item list option \<Rightarrow> heatmapInfo option \<Rightarrow> jserror + tasksContext" where
  "createTasksContext arraySort now tasks heatmapInfo =
     (if tasks = None \<or> tasks = Some [] then
        Inr \<lparr> tc_totalTasks = 0, tc_totalEvents = None, tc_totalItems = None,
              tc_pendingTasks = 0, tc_inProgressTasks = 0, tc_completedTasks = 0,
              tc_overdueTasks = 0, tc_urgentTasks = 0, tc_highPriorityTasks = 0,
              tc_productivityScore = None, tc_completionRate = None, tc_weeklyEventTime = None,
              tc_categoryStats = None, tc_priorityStats = None, tc_upcomingDeadlines = [],
              tc_heatmapData = Option.bind heatmapInfo hi_heatmapData,
              tc_heatmapAnalysis = orNull (Option.bind heatmapInfo hi_heatmapAnalysis) \<rparr>
      else
        (let ts = the tasks;
             events = filter isEvent ts;
             totalTasks = length ts;
             completedTasks = count (\<lambda>t. is_str (status t) ''completed'') ts;
             categoryObj = categoryCount ts
         in case priorityCount ts of
              Inl e \<Rightarrow> Inl e
            | Inr priorityObj \<Rightarrow>
                Inr \<lparr> tc_totalTasks = totalTasks,
                      tc_totalEvents = Some (length events),
                      tc_totalItems = Some totalTasks,
                      tc_pendingTasks = count (\<lambda>t. is_str (status t) ''pending'') ts,
                      tc_inProgressTasks = count (\<lambda>t. is_str (status t) ''in-progress'') ts,
                      tc_completedTasks = completedTasks,
                      tc_overdueTasks = count (isOverdue now) ts,
                      tc_urgentTasks = count (\<lambda>t. is_str (priority t) ''urgent'') ts,
                      tc_highPriorityTasks = count (\<lambda>t. is_str (priority t) ''high'') ts,
                      tc_productivityScore = Some (roundedRate completedTasks totalTasks),
                      tc_completionRate = Some (roundedRate completedTasks totalTasks),
                      tc_weeklyEventTime = Some (sumEstimatedDuration events),
                      tc_categoryStats =
                        Some (map (categoryToken categoryObj) (objectKeys categoryObj)),
                      tc_priorityStats =
                        Some (map (priorityRow priorityObj) (objectKeys priorityObj)),
                      tc_upcomingDeadlines =
                        map toDeadline
                          (take 5 (arraySort compareDates
                             (filter (\<lambda>t. \<not> is_str (status t) ''completed'') ts))),
                      tc_heatmapData = Option.bind heatmapInfo hi_heatmapData,
                      tc_heatmapAnalysis = orNull (Option.bind heatmapInfo hi_heatmapAnalysis) \<rparr>))"

text \<open>
  How the prompt of the chat endpoint reads the fields that the guard leaves out:
  \<^verbatim>\<open>tasksContext.totalEvents || 0\<close>, \<^verbatim>\<open>tasksContext.totalItems || tasksContext.totalTasks\<close>,
  \<^verbatim>\<open>tasksContext.productivityScore || 0\<close>, \<^verbatim>\<open>tasksContext.completionRate || 0\<close>,
  \<^verbatim>\<open>tasksContext.weeklyEventTime || 0\<close>, \<^verbatim>\<open>tasksContext.categoryStats || []\<close> and
  \<^verbatim>\<open>tasksContext.priorityStats || []\<close>.
\<close>

definition read_totalEvents :: "tasksContext \<Rightarrow> nat" where
  "read_totalEvents c = (case tc_totalEvents c of None \<Rightarrow> 0 | Some n \<Rightarrow> n)"

definition read_totalItems :: "tasksContext \<Rightarrow> nat" where
  "read_totalItems c =
     (case tc_totalItems c of None \<Rightarrow> tc_totalTasks c | Some n \<Rightarrow> if n = 0 then tc_totalTasks c else n)"

definition read_productivityScore :: "tasksContext \<Rightarrow> int" where
  "read_productivityScore c = (case tc_productivityScore c of None \<Rightarrow> 0 | Some n \<Rightarrow> n)"

definition read_completionRate :: "tasksContext \<Rightarrow> int" where
  "read_completionRate c = (case tc_completionRate c of None \<Rightarrow> 0 | Some n \<Rightarrow> n)"

definition read_weeklyEventTime :: "tasksContext \<Rightarrow> real" where
  "read_weeklyEventTime c = orZero (tc_weeklyEventTime c)"

definition read_categoryStats :: "tasksContext \<Rightarrow> string list" where
  "read_categoryStats c = (case tc_categoryStats c of None \<Rightarrow> [] | Some xs \<Rightarrow> xs)"

definition read_priorityStats :: "tasksContext \<Rightarrow> string list" where
  "read_priorityStats c = (case tc_priorityStats c of None \<Rightarrow> [] | Some xs \<Rightarrow> xs)"

section \<open>Recommendations\<close>

subsection \<open>generateFallbackRecommendations\<close>

text \<open>
  The week of \<open>now\<close> in the server's zone: from local midnight of its Sunday
  (\<^verbatim>\<open>getDay() = 0\<close>) to 23:59:59.999 six days later.
\<close>

definition startOfWeek :: "int \<Rightarrow> int \<Rightarrow> int" where
  "startOfWeek tz now = ((now + tz) div msPerDay - getDay tz now) * msPerDay - tz"

definition endOfWeek :: "int \<Rightarrow> int \<Rightarrow> int" where
  "endOfWeek tz now = startOfWeek tz now + 6 * msPerDay + 86399999"

definition inWeek :: "int \<Rightarrow> int \<Rightarrow> item \<Rightarrow> bool" where
  "inWeek tz now task =
     (date_truthy (startTime task) \<and> date_truthy (endTime task) \<and>
      (case date_time (startTime task) of
         None \<Rightarrow> False
       | Some s \<Rightarrow> startOfWeek tz now \<le> s \<and> s \<le> endOfWeek tz now))"

definition addMinutes :: "jsnum \<Rightarrow> item \<Rightarrow> jsnum" where
  "addMinutes acc task =
     (if \<not> date_truthy (startTime task) \<or> \<not> date_truthy (endTime task) then acc
      else (case (acc, date_time (startTime task), date_time (endTime task)) of
              (Some a, Some s, Some e) \<Rightarrow> Some (a + real_of_int (e - s) / (1000 * 60))
            | _ \<Rightarrow> None))"

definition weeklyEventTime :: "int \<Rightarrow> int \<Rightarrow> item list \<Rightarrow> jsnum" where
  "weeklyEventTime tz now tasks =
     foldl addMinutes (Some 0) (filter (inWeek tz now) (filter isEvent tasks))"

record mostActive =
  ma_total :: nat
  ma_category :: string

text \<open>
  The function renders one \<^verbatim>\<open>category,count\<close> token per fixed category and reads the
  two parts back with \<^verbatim>\<open>split(',')\<close> and \<^verbatim>\<open>parseInt\<close>; the model keeps the pair.
\<close>

definition mostActiveCategory :: "item list \<Rightarrow> mostActive" where
  "mostActiveCategory tasks =
     foldl (\<lambda>mx c.
        (let totalNum = count (\<lambda>t. is_str (category t) c) tasks
         in if totalNum > ma_total mx then \<lparr> ma_total = totalNum, ma_category = c \<rparr> else mx))
       \<lparr> ma_total = 0, ma_category = [] \<rparr> categories"

text \<open>
  The sentences of the fallback, by what they say and the values they interpolate; the
  flag of \<open>Canned\<close> is \<^verbatim>\<open>isVietnamese\<close>. A recommendation taken from the model's reply is
  a \<open>Line\<close>.
\<close>

datatype recBody =
    TimeTooMuch
  | TimeTooLittle
  | TimeBalanced
  | DeadlineOverdue real
  | FocusesOn string int
  | NeglectsCategory string int
  | TimeManagementGood
  | TechniquePomodoro

datatype recommendation = Line string | Canned bool recBody

text \<open>The label each sentence starts with, up to its colon.\<close>

fun recLabel :: "bool \<Rightarrow> recBody \<Rightarrow> string" where
  "recLabel vi TimeTooMuch = (if vi then ''Th'' @ [CHR 0xE1, CHR 0xBB, CHR 0x9D] @ ''i gian:'' else ''Time:'')"
| "recLabel vi TimeTooLittle = (if vi then ''Th'' @ [CHR 0xE1, CHR 0xBB, CHR 0x9D] @ ''i gian:'' else ''Time:'')"
| "recLabel vi TimeBalanced = (if vi then ''Th'' @ [CHR 0xE1, CHR 0xBB, CHR 0x9D] @ ''i gian:'' else ''Time:'')"
| "recLabel vi (DeadlineOverdue n) = ''Deadline:''"
| "recLabel vi (FocusesOn c p) =
     (if vi then ''S'' @ [CHR 0xE1, CHR 0xBB, CHR 0x9F] @ '' th'' @ [CHR 0xC3, CHR 0xAD] @ ''ch:''
      else ''Preferences:'')"
| "recLabel vi (NeglectsCategory c p) =
     (if vi then ''S'' @ [CHR 0xE1, CHR 0xBB, CHR 0x9F] @ '' th'' @ [CHR 0xC3, CHR 0xAD] @ ''ch:''
      else ''Preferences:'')"
| "recLabel vi TimeManagementGood =
     (if vi then ''Qu'' @ [CHR 0xE1, CHR 0xBA, CHR 0xA3] @ ''n l'' @ [CHR 0xC3, CHR 0xBD] @ '' th'' @
        [CHR 0xE1, CHR 0xBB, CHR 0x9D] @ ''i gian:''
      else ''Time Management:'')"
| "recLabel vi TechniquePomodoro =
     (if vi then ''K'' @ [CHR 0xE1, CHR 0xBB, CHR 0xB9] @ '' thu'' @ [CHR 0xE1, CHR 0xBA, CHR 0xAD] @ ''t:''
      else ''Technique:'')"

definition timeAdvice :: "jsnum \<Rightarrow> recBody" where
  "timeAdvice weeklyHours =
     (if num_gt weeklyHours 50 then TimeTooMuch
      else if num_lt weeklyHours 20 then TimeTooLittle
      else TimeBalanced)"

definition deadlineAdvice :: "real \<Rightarrow> recBody list" where
  "deadlineAdvice overdueTasks = (if overdueTasks > 0 then [DeadlineOverdue overdueTasks] else [])"

definition preferenceAdvice :: "mostActive \<Rightarrow> nat \<Rightarrow> recBody list" where
  "preferenceAdvice ma totalTasks =
     (if ma_total ma > 0 then
        (let percentage = roundPercent (ma_total ma) totalTasks
         in if percentage > 50 then [FocusesOn (ma_category ma) percentage]
            else if percentage < 10 then [NeglectsCategory (ma_category ma) percentage]
            else [])
      else [])"

definition closingAdvice :: "jsnum \<Rightarrow> real \<Rightarrow> recBody" where
  "closingAdvice weeklyHours overdueTasks =
     (if num_ge weeklyHours 20 \<and> num_le weeklyHours 50 \<and> overdueTasks = 0 then TimeManagementGood
      else TechniquePomodoro)"

text \<open>
  \<open>language\<close> is \<open>None\<close> when the argument is undefined, which the default \<^verbatim>\<open>'vi'\<close>
  replaces. \<open>tasks\<close> and \<open>taskStats\<close> are read without a guard, as in
  \<open>createAnalyticsContext\<close>. The two language branches push the same entries in the same
  order and differ in the text only.
\<close>

definition isVietnamese :: "string option \<Rightarrow> bool" where
  "isVietnamese language = (case language of None \<Rightarrow> True | Some l \<Rightarrow> l = ''vi'')"

definition generateFallbackRecommendations ::
  "int \<Rightarrow> int \<Rightarrow> item list option \<Rightarrow> taskStats option \<Rightarrow> timeAccuracy option \<Rightarrow> string option
     \<Rightarrow> jserror + recommendation list" where
  "generateFallbackRecommendations tz now tasks taskStats timeAccuracy language =
     (case tasks of
        None \<Rightarrow> Inl TypeError
      | Some ts \<Rightarrow>
     (case taskStats of
        None \<Rightarrow> Inl TypeError
      | Some st \<Rightarrow>
          (let totalTasks = length ts;
               overdueTasks = orZero (ts_overdueTasks st);
               weeklyHours = map_option (\<lambda>m. m / 60) (weeklyEventTime tz now ts)
           in Inr (map (Canned (isVietnamese language))
                ([timeAdvice weeklyHours] @
                 deadlineAdvice overdueTasks @
                 preferenceAdvice (mostActiveCategory ts) totalTasks @
                 [closingAdvice weeklyHours overdueTasks])))))"

subsection \<open>parseRecommendations\<close>

definition labels :: "string list" where
  "labels =
     [''Th'' @ [CHR 0xE1, CHR 0xBB, CHR 0x9D] @ ''i gian:'',
      ''Deadline:'',
      ''S'' @ [CHR 0xE1, CHR 0xBB, CHR 0x9F] @ '' th'' @ [CHR 0xC3, CHR 0xAD] @ ''ch:'',
      ''G'' @ [CHR 0xE1, CHR 0xBB, CHR 0xA3] @ ''i '' @ [CHR 0xC3, CHR 0xBD] @ '':'',
      ''Qu'' @ [CHR 0xE1, CHR 0xBA, CHR 0xA3] @ ''n l'' @ [CHR 0xC3, CHR 0xBD] @ '' th'' @
        [CHR 0xE1, CHR 0xBB, CHR 0x9D] @ ''i gian:'',
      ''T'' @ [CHR 0xE1, CHR 0xBB, CHR 0x91] @ ''i '' @ [CHR 0xC6, CHR 0xB0] @ ''u l'' @
        [CHR 0xE1, CHR 0xBB, CHR 0x8B] @ ''ch tr'' @ [CHR 0xC3, CHR 0xAC] @ ''nh:'',
      ''C'' @ [CHR 0xC3, CHR 0xB4] @ ''ng c'' @ [CHR 0xE1, CHR 0xBB, CHR 0xA5] @ '':'',
      ''K'' @ [CHR 0xE1, CHR 0xBB, CHR 0xB9] @ '' thu'' @ [CHR 0xE1, CHR 0xBA, CHR 0xAD] @ ''t:'',
      ''Time:'',
      ''Preferences:'',
      ''Suggestions:'',
      ''Time Management:'',
      ''Schedule Optimization:'',
      ''Tools:'',
      ''Technique:'']"

definition emojis :: "string list" where
  "emojis =
     [[CHR 0xF0, CHR 0x9F, CHR 0x8E, CHR 0xAF],
      [CHR 0xE2, CHR 0x9A, CHR 0xA1],
      [CHR 0xF0, CHR 0x9F, CHR 0x92, CHR 0xA1],
      [CHR 0xF0, CHR 0x9F, CHR 0x8C, CHR 0x9F]]"

definition hasLabel :: "string \<Rightarrow> bool" where
  "hasLabel line = (str_includes line '':'' \<and> list_ex (str_includes line) labels)"

definition hasEmoji :: "string \<Rightarrow> bool" where
  "hasEmoji line = list_ex (str_includes line) emojis"

text \<open>\<^verbatim>\<open>aiResponse.split('\n').filter(line => line.trim())\<close>.\<close>

definition replyLines :: "string \<Rightarrow> string list" where
  "replyLines aiResponse = filter (\<lambda>line. trim line \<noteq> []) (splitLines aiResponse)"

definition emptyStats :: taskStats where
  "emptyStats =
     \<lparr> ts_completedTasks = None, ts_overdueTasks = None, ts_productivityScore = None,
       ts_averageCompletionTime = None, ts_weeklyEventTime = None, ts_heatmapData = None,
       ts_heatmapAnalysis = None \<rparr>"

definition emptyAccuracy :: timeAccuracy where
  "emptyAccuracy = \<lparr> ta_accuracy = None, ta_averageOverrun = None \<rparr>"

definition parseRecommendations ::
  "int \<Rightarrow> int \<Rightarrow> string \<Rightarrow> string option \<Rightarrow> jserror + recommendation list" where
  "parseRecommendations tz now aiResponse language =
     (let ls = replyLines aiResponse;
          structured = map trim (filter hasLabel ls);
          old = map trim (filter hasEmoji ls)
      in if structured \<noteq> [] then Inr (map Line structured)
         else if old \<noteq> [] then Inr (map Line old)
         else generateFallbackRecommendations tz now (Some []) (Some emptyStats)
                (Some emptyAccuracy) language)"

section \<open>The fallback responder\<close>

text \<open>
  The replies of \<^verbatim>\<open>generateFallbackResponse\<close>, by rule, with the values each template
  interpolates.
\<close>

datatype fallbackReply =
    CreateHelp
  | PriorityReport nat nat nat nat
  | UpcomingDeadlines "deadline list"
  | NoUpcomingDeadlines
  | ProductivityReport int nat nat nat nat
  | TimeManagementTips nat nat
  | HelpMenu
  | Greeting nat nat nat nat nat
  | DefaultReply string nat

definition createKeywords :: "string list" where
  "createKeywords =
     [''t'' @ [CHR 0xE1, CHR 0xBA, CHR 0xA1] @ ''o'', ''th'' @ [CHR 0xC3, CHR 0xAA] @ ''m'', ''add'',
      ''create'', ''l'' @ [CHR 0xE1, CHR 0xBB, CHR 0x8B] @ ''ch'']"

definition priorityKeywords :: "string list" where
  "priorityKeywords =
     [[CHR 0xC6, CHR 0xB0] @ ''u ti'' @ [CHR 0xC3, CHR 0xAA] @ ''n'', ''priority'',
      ''quan tr'' @ [CHR 0xE1, CHR 0xBB, CHR 0x8D] @ ''ng'']"

definition scheduleKeywords :: "string list" where
  "scheduleKeywords =
     [''l'' @ [CHR 0xE1, CHR 0xBB, CHR 0x8B] @ ''ch'', ''schedule'', ''deadline'',
      ''h'' @ [CHR 0xE1, CHR 0xBA, CHR 0xA1] @ ''n'']"

definition productivityKeywords :: "string list" where
  "productivityKeywords =
     [''hi'' @ [CHR 0xE1, CHR 0xBB, CHR 0x87] @ ''u su'' @ [CHR 0xE1, CHR 0xBA, CHR 0xA5] @ ''t'',
      ''productivity'',
      ''th'' @ [CHR 0xE1, CHR 0xBB, CHR 0x91] @ ''ng k'' @ [CHR 0xC3, CHR 0xAA],
      ''ph'' @ [CHR 0xC3, CHR 0xA2] @ ''n t'' @ [CHR 0xC3, CHR 0xAD] @ ''ch'']"

definition timeKeywords :: "string list" where
  "timeKeywords =
     [''th'' @ [CHR 0xE1, CHR 0xBB, CHR 0x9D] @ ''i gian'', ''time'',
      ''qu'' @ [CHR 0xE1, CHR 0xBA, CHR 0xA3] @ ''n l'' @ [CHR 0xC3, CHR 0xBD]]"

definition helpKeywords :: "string list" where
  "helpKeywords =
     [''gi'' @ [CHR 0xC3, CHR 0xBA] @ ''p'', ''help'',
      ''h'' @ [CHR 0xC6, CHR 0xB0, CHR 0xE1, CHR 0xBB, CHR 0x9B] @ ''ng d'' @
        [CHR 0xE1, CHR 0xBA, CHR 0xAB] @ ''n'']"

definition greetingKeywords :: "string list" where
  "greetingKeywords =
     [''xin ch'' @ [CHR 0xC3, CHR 0xA0] @ ''o'', ''hello'', ''hi'', ''ch'' @ [CHR 0xC3, CHR 0xA0] @ ''o'']"

definition mentions :: "string \<Rightarrow> string list \<Rightarrow> bool" where
  "mentions lowerMessage keywords = list_ex (str_includes lowerMessage) keywords"

text \<open>
  \<open>toLowerCase\<close> is the platform's \<^verbatim>\<open>String.prototype.toLowerCase\<close>, a parameter: its
  case mapping of non-ASCII letters is not modelled. The context is built without heat map
  information, before anything else, so an exception of \<open>createTasksContext\<close> leaves the
  function.
\<close>

definition generateFallbackResponse ::
  "arraySort \<Rightarrow> (string \<Rightarrow> string) \<Rightarrow> int \<Rightarrow> string \<Rightarrow> item list option
     \<Rightarrow> jserror + fallbackReply" where
  "generateFallbackResponse arraySort toLowerCase now userMessage tasks =
     (case createTasksContext arraySort now tasks None of
        Inl e \<Rightarrow> Inl e
      | Inr context \<Rightarrow>
          (let lowerMessage = toLowerCase userMessage
           in Inr
             (if mentions lowerMessage createKeywords then CreateHelp
              else if mentions lowerMessage priorityKeywords then
                PriorityReport (tc_totalTasks context) (tc_overdueTasks context)
                  (tc_urgentTasks context) (tc_highPriorityTasks context)
              else if mentions lowerMessage scheduleKeywords then
                (if length (tc_upcomingDeadlines context) > 0
                 then UpcomingDeadlines (take 3 (tc_upcomingDeadlines context))
                 else NoUpcomingDeadlines)
              else if mentions lowerMessage productivityKeywords then
                ProductivityReport (roundedRate (tc_completedTasks context) (tc_totalTasks context))
                  (tc_completedTasks context) (tc_totalTasks context)
                  (tc_inProgressTasks context) (tc_overdueTasks context)
              else if mentions lowerMessage timeKeywords then
                TimeManagementTips (tc_totalTasks context) (tc_overdueTasks context)
              else if mentions lowerMessage helpKeywords then HelpMenu
              else if mentions lowerMessage greetingKeywords then
                Greeting (tc_totalTasks context) (tc_pendingTasks context)
                  (tc_inProgressTasks context) (tc_completedTasks context) (tc_overdueTasks context)
              else DefaultReply userMessage (tc_totalTasks context))))"

section \<open>Conversation memory\<close>

datatype content = Plain string | Fallback fallbackReply

record turn =
  message :: content
  isUser :: bool
  timestamp :: int

text \<open>
  \<^verbatim>\<open>chatHistory\<close> maps a user to an array, and the arrays are shared objects: \<open>arrays\<close> is
  the store, by reference. \<^verbatim>\<open>summarizeAndResetHistory\<close> is an async function: a call runs
  to the \<^verbatim>\<open>await\<close> of the summarizer and returns a promise; what is left of it waits in
  \<open>pendingSummaries\<close>, holding the user and the array it was given, until the summarizer
  settles.
\<close>

record memory =
  chatHistory :: "string \<Rightarrow> nat option"
  arrays :: "nat \<Rightarrow> turn list"
  nextRef :: nat
  pendingSummaries :: "(string \<times> nat) list"

definition emptyMemory :: memory where
  "emptyMemory =
     \<lparr> chatHistory = (\<lambda>u. None), arrays = (\<lambda>r. []), nextRef = 0, pendingSummaries = [] \<rparr>"

definition MAX_HISTORY_LENGTH :: nat where
  "MAX_HISTORY_LENGTH = 5"

text \<open>\<^verbatim>\<open>chatHistory.set(userId, array)\<close> with a new array.\<close>

definition setHistory :: "memory \<Rightarrow> string \<Rightarrow> turn list \<Rightarrow> memory" where
  "setHistory m userId ts =
     m \<lparr> chatHistory := (chatHistory m)(userId := Some (nextRef m)),
         arrays := (arrays m)(nextRef m := ts),
         nextRef := Suc (nextRef m) \<rparr>"

definition getOrCreateUserHistory :: "memory \<Rightarrow> string \<Rightarrow> memory \<times> nat" where
  "getOrCreateUserHistory m userId =
     (case chatHistory m userId of
        Some r \<Rightarrow> (m, r)
      | None \<Rightarrow> (setHistory m userId [], nextRef m))"

text \<open>What the map holds for a user.\<close>

definition storedHistory :: "memory \<Rightarrow> string \<Rightarrow> turn list" where
  "storedHistory m userId = (case chatHistory m userId of None \<Rightarrow> [] | Some r \<Rightarrow> arrays m r)"

text \<open>The part of \<^verbatim>\<open>summarizeAndResetHistory\<close> before the \<^verbatim>\<open>await\<close>.\<close>

definition summarizeAndResetHistory :: "memory \<Rightarrow> string \<Rightarrow> nat \<Rightarrow> memory" where
  "summarizeAndResetHistory m userId history =
     m \<lparr> pendingSummaries := pendingSummaries m @ [(userId, history)] \<rparr>"

text \<open>What \<^verbatim>\<open>addMessageToHistory\<close> returns: null, or the promise of the summary.\<close>

datatype summaryResult = NoSummary | SummaryPromise

definition addMessageToHistory ::
  "int \<Rightarrow> memory \<Rightarrow> string \<Rightarrow> content \<Rightarrow> bool \<Rightarrow> memory \<times> summaryResult" where
  "addMessageToHistory now m userId msg isUsr =
     (case getOrCreateUserHistory m userId of (m1, history) \<Rightarrow>
        (let pushed = arrays m1 history @ [\<lparr> message = msg, isUser = isUsr, timestamp = now \<rparr>];
             m2 = m1 \<lparr> arrays := (arrays m1)(history := pushed) \<rparr>
         in if length pushed > MAX_HISTORY_LENGTH
            then (summarizeAndResetHistory m2 userId history, SummaryPromise)
            else (m2, NoSummary)))"

definition summaryMarker :: string where
  "summaryMarker =
     ''[T'' @ [CHR 0xC3, CHR 0x93] @ ''M T'' @ [CHR 0xE1, CHR 0xBA, CHR 0xAE] @ ''T CU'' @
     [CHR 0xE1, CHR 0xBB, CHR 0x98] @ ''C TR'' @ [CHR 0xC3, CHR 0x92] @ '' CHUY'' @
     [CHR 0xE1, CHR 0xBB, CHR 0x86] @ ''N TR'' @ [CHR 0xC6, CHR 0xAF, CHR 0xE1, CHR 0xBB, CHR 0x9A] @ ''C] ''"

datatype summarizerOutcome = Summarized string | SummarizerFailed

text \<open>\<^verbatim>\<open>history.slice(-3)\<close>.\<close>

definition lastThree :: "'a list \<Rightarrow> 'a list" where
  "lastThree xs = drop (length xs - 3) xs"

text \<open>
  The rest of the \<open>k\<close>-th suspended call, run when its summarizer settles: the
  \<^verbatim>\<open>try\<close> branch after the \<^verbatim>\<open>await\<close>, or the \<^verbatim>\<open>catch\<close> branch, which reads the
  array the call was given as it is by then.
\<close>

definition settleSummary :: "int \<Rightarrow> memory \<Rightarrow> nat \<Rightarrow> summarizerOutcome \<Rightarrow> memory" where
  "settleSummary now m k outcome =
     (if k < length (pendingSummaries m) then
        (case pendingSummaries m ! k of (userId, history) \<Rightarrow>
           (let m1 = m \<lparr> pendingSummaries := take k (pendingSummaries m) @ drop (Suc k) (pendingSummaries m) \<rparr>
            in case outcome of
                 Summarized summary \<Rightarrow>
                   setHistory m1 userId
                     [\<lparr> message = Plain (summaryMarker @ summary), isUser = False, timestamp = now \<rparr>]
               | SummarizerFailed \<Rightarrow> setHistory m1 userId (lastThree (arrays m1 history))))
      else m)"

text \<open>What happens to the memory, one event after the other.\<close>

datatype event =
    Append int string content bool
  | Settle int nat summarizerOutcome

fun step :: "memory \<Rightarrow> event \<Rightarrow> memory" where
  "step m (Append now userId msg isUsr) = fst (addMessageToHistory now m userId msg isUsr)"
| "step m (Settle now k outcome) = settleSummary now m k outcome"

definition run :: "memory \<Rightarrow> event list \<Rightarrow> memory" where
  "run m es = foldl step m es"

text \<open>
  A caller that awaits the promise: the summarizer of the call just made settles before
  anything else happens.
\<close>

definition appendAwaited ::
  "int \<Rightarrow> memory \<Rightarrow> string \<Rightarrow> content \<Rightarrow> bool \<Rightarrow> summarizerOutcome \<Rightarrow> memory" where
  "appendAwaited now m userId msg isUsr outcome =
     (case addMessageToHistory now m userId msg isUsr of
        (m1, NoSummary) \<Rightarrow> m1
      | (m1, SummaryPromise) \<Rightarrow> settleSummary now m1 (length (pendingSummaries m1) - 1) outcome)"

section \<open>Fenced blocks in a reply\<close>

text \<open>
  \<open>splitAtFirst pat s\<close> cuts \<open>s\<close> at the first occurrence of the non-empty \<open>pat\<close>: what is
  before it and what is after it.
\<close>

fun splitAtFirst :: "string \<Rightarrow> string \<Rightarrow> (string \<times> string) option" where
  "splitAtFirst pat [] = None"
| "splitAtFirst pat (c # cs) =
     (if startsWith (c # cs) pat then Some ([], drop (length pat) (c # cs))
      else map_option (\<lambda>(before, after). (c # before, after)) (splitAtFirst pat cs))"

text \<open>
  \<^verbatim>\<open>aiResponse.match(/```json\s*([\s\S]*?)\s*```/)\<close>: the first opening fence that a closing
  fence follows. The white space after the tag is skipped, the group is the text up to the
  next fence without its trailing white space. The result is the group and the text after
  the match.
\<close>

definition jsonMatchRest :: "string \<Rightarrow> (string \<times> string) option" where
  "jsonMatchRest text =
     (case splitAtFirst ''```json'' text of
        None \<Rightarrow> None
      | Some (before, afterTag) \<Rightarrow>
          (case splitAtFirst ''```'' (trimStart afterTag) of
             None \<Rightarrow> None
           | Some (body, rest) \<Rightarrow> Some (trimEnd body, rest)))"

text \<open>\<^verbatim>\<open>jsonMatch[1]\<close>, when there is a match.\<close>

definition jsonMatch :: "string \<Rightarrow> string option" where
  "jsonMatch text = map_option fst (jsonMatchRest text)"

text \<open>
  What the handler does with the reply: \<^verbatim>\<open>JSON.parse\<close> (the parameter \<open>parse\<close>, \<open>None\<close>
  where it throws a SyntaxError) on the one group, inside a \<^verbatim>\<open>try\<close>; the outcome goes to
  the console.
\<close>

datatype 'j extraction = NoJsonFound | ParseFailed | ExtractedJson 'j

definition extractJson :: "(string \<Rightarrow> 'j option) \<Rightarrow> string \<Rightarrow> 'j extraction" where
  "extractJson parse aiResponse =
     (case jsonMatch aiResponse of
        None \<Rightarrow> NoJsonFound
      | Some body \<Rightarrow>
          (case parse body of None \<Rightarrow> ParseFailed | Some jsonData \<Rightarrow> ExtractedJson jsonData))"

text \<open>The blocks the handler hands to the parser.\<close>

definition parsedBlocks :: "string \<Rightarrow> string list" where
  "parsedBlocks aiResponse = (case jsonMatch aiResponse of None \<Rightarrow> [] | Some body \<Rightarrow> [body])"

section \<open>The endpoints\<close>

text \<open>
  The external model under the 30-second deadline of \<^verbatim>\<open>Promise.race\<close>: it replies, it
  fails, or the timer rejects first. The prompt is not modelled.
\<close>

datatype modelOutcome = Replied string | ModelFailed | ModelTimedOut

text \<open>
  What a handler sends: \<^verbatim>\<open>res.status(400).json({error})\<close>, \<^verbatim>\<open>res.json(body)\<close>, or
  nothing, when an exception leaves the handler.
\<close>

datatype 'b httpResponse = BadRequest string | Ok 'b | Unhandled jserror

subsection \<open>POST /api/chat\<close>

text \<open>
  The body of a request is an object; a field is \<open>None\<close> when it is absent, and the user
  is a string when it is present.
\<close>

record chatRequest =
  cr_message :: "string option"
  cr_tasks :: "item list option"
  cr_taskStats :: "taskStats option"
  cr_userId :: "string option"

record chatBody =
  cb_success :: bool
  cb_response :: content
  cb_timestamp :: int
  cb_note :: "string option"
  cb_debug :: "(bool \<times> nat) option"

text \<open>
  What a request leaves behind: the memory, what was sent, what the console log holds of the
  fenced block, and whether the handler got as far as calling the external model.
\<close>

record 'j chatResult =
  memoryAfter :: memory
  sent :: "chatBody httpResponse"
  logged :: "'j extraction option"
  modelCalled :: bool

text \<open>
  The \<^verbatim>\<open>catch\<close> block of the handler. Its user is \<^verbatim>\<open>req.body.userId || 'default'\<close>. It
  builds the fallback reply first: when that throws, the exception leaves the handler,
  nothing is appended and nothing is sent.
\<close>

definition chatCatch ::
  "arraySort \<Rightarrow> (string \<Rightarrow> string) \<Rightarrow> int \<Rightarrow> memory \<Rightarrow> chatRequest \<Rightarrow> bool \<Rightarrow> 'j chatResult" where
  "chatCatch arraySort toLowerCase now m req called =
     (case generateFallbackResponse arraySort toLowerCase now (the (cr_message req)) (cr_tasks req) of
        Inl e \<Rightarrow> \<lparr> memoryAfter = m, sent = Unhandled e, logged = None, modelCalled = called \<rparr>
      | Inr fallbackResponse \<Rightarrow>
          (let m1 = fst (addMessageToHistory now m (orElse (cr_userId req) ''default'')
                           (Fallback fallbackResponse) False)
           in \<lparr> memoryAfter = m1,
                sent = Ok \<lparr> cb_success = True, cb_response = Fallback fallbackResponse,
                            cb_timestamp = now,
                            cb_note = Some ''Using fallback response due to API error'',
                            cb_debug = None \<rparr>,
                logged = None, modelCalled = called \<rparr>))"

text \<open>
  The handler. Its user is the destructured \<^verbatim>\<open>userId = 'default'\<close>. The promise that
  \<open>addMessageToHistory\<close> returns when it starts a summary is not awaited; the handler calls
  \<^verbatim>\<open>substring\<close> on it, which throws a TypeError inside the \<^verbatim>\<open>try\<close>. The context of the
  items is built before the model is called, also inside the \<^verbatim>\<open>try\<close>: an exception of
  \<open>createTasksContext\<close> goes to the \<^verbatim>\<open>catch\<close> block with no call of the model. Building
  the client object of the model and the prompt raises nothing.
\<close>

definition chat ::
  "arraySort \<Rightarrow> (string \<Rightarrow> string) \<Rightarrow> (string \<Rightarrow> 'j option) \<Rightarrow> bool \<Rightarrow> int \<Rightarrow> memory
     \<Rightarrow> chatRequest \<Rightarrow> modelOutcome \<Rightarrow> 'j chatResult" where
  "chat arraySort toLowerCase parse FORCE_FALLBACK now m req outcome =
     (if \<not> truthy (cr_message req) then
        \<lparr> memoryAfter = m, sent = BadRequest ''Message is required'', logged = None,
          modelCalled = False \<rparr>
      else
        (let message = the (cr_message req);
             userId = (case cr_userId req of None \<Rightarrow> ''default'' | Some u \<Rightarrow> u);
             tasksOrEmpty = (case cr_tasks req of None \<Rightarrow> Some [] | Some ts \<Rightarrow> Some ts)
         in case addMessageToHistory now m userId (Plain message) True of
              (m1, SummaryPromise) \<Rightarrow> chatCatch arraySort toLowerCase now m1 req False
            | (m1, NoSummary) \<Rightarrow>
                (case createTasksContext arraySort now tasksOrEmpty
                        (Some \<lparr> hi_heatmapData = Option.bind (cr_taskStats req) ts_heatmapData,
                                hi_heatmapAnalysis =
                                  orNull (Option.bind (cr_taskStats req) ts_heatmapAnalysis),
                                hi_weeklyEventTime = None \<rparr>) of
                   Inl e \<Rightarrow> chatCatch arraySort toLowerCase now m1 req False
                 | Inr tasksContext \<Rightarrow>
                     if FORCE_FALLBACK then
                       (case generateFallbackResponse arraySort toLowerCase now message tasksOrEmpty of
                          Inl e \<Rightarrow> chatCatch arraySort toLowerCase now m1 req False
                        | Inr fallbackResponse \<Rightarrow>
                            (let m2 = fst (addMessageToHistory now m1 userId
                                             (Fallback fallbackResponse) False)
                             in \<lparr> memoryAfter = m2,
                                  sent = Ok \<lparr> cb_success = True,
                                              cb_response = Fallback fallbackResponse,
                                              cb_timestamp = now,
                                              cb_note = Some ''Using fallback response due to FORCE_FALLBACK mode'',
                                              cb_debug = Some (FORCE_FALLBACK, tc_totalTasks tasksContext) \<rparr>,
                                  logged = None, modelCalled = False \<rparr>))
                     else
                       (case outcome of
                          Replied aiResponse \<Rightarrow>
                            (let jsonLog = extractJson parse aiResponse;
                                 m2 = fst (addMessageToHistory now m1 userId (Plain aiResponse) False)
                             in \<lparr> memoryAfter = m2,
                                  sent = Ok \<lparr> cb_success = True, cb_response = Plain aiResponse,
                                              cb_timestamp = now, cb_note = None, cb_debug = None \<rparr>,
                                  logged = Some jsonLog, modelCalled = True \<rparr>)
                        | ModelFailed \<Rightarrow> chatCatch arraySort toLowerCase now m1 req True
                        | ModelTimedOut \<Rightarrow> chatCatch arraySort toLowerCase now m1 req True))))"

subsection \<open>POST /api/analytics/recommendations\<close>

record recRequest =
  rr_tasks :: "item list option"
  rr_taskStats :: "taskStats option"
  rr_timeAccuracy :: "timeAccuracy option"
  rr_language :: "string option"

record recBody' =
  rb_success :: bool
  rb_recommendations :: "recommendation list"
  rb_timestamp :: int
  rb_note :: "string option"
  rb_debug :: "(bool \<times> nat) option"

text \<open>The outer \<^verbatim>\<open>catch\<close>: the fallback from the raw request body.\<close>

definition recOuterCatch :: "int \<Rightarrow> int \<Rightarrow> recRequest \<Rightarrow> recBody' httpResponse" where
  "recOuterCatch tz now req =
     (case generateFallbackRecommendations tz now (rr_tasks req) (rr_taskStats req)
             (rr_timeAccuracy req) (rr_language req) of
        Inl e \<Rightarrow> Unhandled e
      | Inr fallbackRecommendations \<Rightarrow>
          Ok \<lparr> rb_success = True, rb_recommendations = fallbackRecommendations,
               rb_timestamp = now,
               rb_note = Some ''Using fallback recommendations due to API error'',
               rb_debug = None \<rparr>)"

text \<open>The inner \<^verbatim>\<open>catch\<close>, around the model call and the parsing of its reply.\<close>

definition recInnerCatch :: "int \<Rightarrow> int \<Rightarrow> recRequest \<Rightarrow> string \<Rightarrow> recBody' httpResponse" where
  "recInnerCatch tz now req language =
     (case generateFallbackRecommendations tz now (rr_tasks req) (rr_taskStats req)
             (rr_timeAccuracy req) (Some language) of
        Inl e \<Rightarrow> recOuterCatch tz now req
      | Inr fallbackRecommendations \<Rightarrow>
          Ok \<lparr> rb_success = True, rb_recommendations = fallbackRecommendations,
               rb_timestamp = now,
               rb_note = Some ''Using fallback recommendations due to AI API error'',
               rb_debug = None \<rparr>)"

definition recommendations ::
  "bool \<Rightarrow> int \<Rightarrow> int \<Rightarrow> recRequest \<Rightarrow> modelOutcome \<Rightarrow> recBody' httpResponse" where
  "recommendations FORCE_FALLBACK tz now req outcome =
     (if rr_tasks req = None \<or> rr_taskStats req = None then
        BadRequest ''Tasks and taskStats are required''
      else
        (let taskStats = the (rr_taskStats req);
             language = (case rr_language req of None \<Rightarrow> ''vi'' | Some l \<Rightarrow> l);
             heatmapInfo =
               \<lparr> hi_heatmapData = ts_heatmapData taskStats,
                 hi_heatmapAnalysis = orNull (ts_heatmapAnalysis taskStats),
                 hi_weeklyEventTime = Some (orZero (ts_weeklyEventTime taskStats)) \<rparr>
         in case createAnalyticsContext tz (rr_tasks req) (rr_taskStats req) (rr_timeAccuracy req)
                   (Some heatmapInfo) of
              Inl e \<Rightarrow> recOuterCatch tz now req
            | Inr analyticsContext \<Rightarrow>
                if FORCE_FALLBACK then
                  (case generateFallbackRecommendations tz now (rr_tasks req) (rr_taskStats req)
                          (rr_timeAccuracy req) (Some language) of
                     Inl e \<Rightarrow> recOuterCatch tz now req
                   | Inr fallbackRecommendations \<Rightarrow>
                       Ok \<lparr> rb_success = True, rb_recommendations = fallbackRecommendations,
                            rb_timestamp = now,
                            rb_note = Some ''Using fallback recommendations due to: FORCE_FALLBACK mode enabled'',
                            rb_debug = Some (FORCE_FALLBACK, ac_totalTasks analyticsContext) \<rparr>)
                else
                  (case outcome of
                     Replied aiResponse \<Rightarrow>
                       (case parseRecommendations tz now aiResponse (Some language) of
                          Inl e \<Rightarrow> recInnerCatch tz now req language
                        | Inr recs \<Rightarrow>
                            Ok \<lparr> rb_success = True, rb_recommendations = recs,
                                 rb_timestamp = now, rb_note = None, rb_debug = None \<rparr>)
                   | ModelFailed \<Rightarrow> recInnerCatch tz now req language
                   | ModelTimedOut \<Rightarrow> recInnerCatch tz now req language)))"

section \<open>Time anchors and the conversion of clock times\<close>

text \<open>
  \<^verbatim>\<open>createPrompt\<close> renders the current instant as a calendar date in Vietnam (UTC+7) and
  the day after it, each as \<^verbatim>\<open>YYYY-MM-DD\<close>.
\<close>

definition vnOffset :: int where
  "vnOffset = 7 * 3600000"

definition isoDate :: "int \<times> int \<times> int \<Rightarrow> string" where
  "isoDate ymd =
     (case ymd of (y, m, d) \<Rightarrow>
        show_int y @ ''-'' @ padStart2 (show_int m) @ ''-'' @ padStart2 (show_int d))"

definition currentDate :: "int \<Rightarrow> string" where
  "currentDate now = isoDate (civil ((now + vnOffset) div msPerDay))"

definition tomorrowDate :: "int \<Rightarrow> string" where
  "tomorrowDate now = isoDate (civil ((now + vnOffset) div msPerDay + 1))"

text \<open>
  The source has no function that converts a clock time: the prompt tells the external
  model how to do it. These are the conversions the rules of the prompt write out, each as
  the hour in Vietnam and the UTC hour given for it on the same date (the sample JSON
  objects of the prompt are not conversions and are left out).
\<close>

definition promptConversions :: "(nat \<times> nat) list" where
  "promptConversions =
     [(12, 5), (7, 0), (20, 13), (11, 4), (13, 6), (14, 7), (15, 8), (16, 9), (17, 10),
      (18, 11), (19, 12), (21, 14)]"

text \<open>
  The worked examples that the prompt builds from its two date anchors: whether the date is
  tomorrow, the clock time in Vietnam, and the UTC timestamp the prompt gives for it.
\<close>

definition promptStamps :: "int \<Rightarrow> ((bool \<times> nat \<times> nat) \<times> string) list" where
  "promptStamps now =
     [((False, 12, 0), currentDate now @ ''T05:00:00.000Z''),
      ((True, 12, 0), tomorrowDate now @ ''T05:00:00.000Z''),
      ((True, 11, 0), tomorrowDate now @ ''T04:00:00.000Z''),
      ((True, 13, 0), tomorrowDate now @ ''T06:00:00.000Z''),
      ((True, 12, 30), tomorrowDate now @ ''T05:30:00.000Z'')]"

text \<open>
  Modelled from the spec: \<^verbatim>\<open>localClockToAbsolute(localDate, hour, minute)\<close>, which is
  missing from the source. It combines a local calendar date (a day number) and a local
  clock time, subtracts the configured offset (in minutes) and returns the instant, in
  minutes since the epoch of the reference zone. \<open>utcDay\<close>, \<open>utcHour\<close> and \<open>utcMinute\<close>
  read an instant back in the reference zone.
\<close>

definition localClockToAbsolute :: "int \<Rightarrow> int \<Rightarrow> nat \<Rightarrow> nat \<Rightarrow> int" where
  "localClockToAbsolute offsetMinutes localDay hour minute =
     localDay * 1440 + int hour * 60 + int minute - offsetMinutes"

definition utcDay :: "int \<Rightarrow> int" where
  "utcDay a = a div 1440"

definition utcHour :: "int \<Rightarrow> int" where
  "utcHour a = (a mod 1440) div 60"

definition utcMinute :: "int \<Rightarrow> int" where
  "utcMinute a = a mod 60"

text \<open>
  The day number of the current date in Vietnam, and an instant written as an ISO timestamp
  of the reference zone, to the minute.
\<close>

definition vnDay :: "int \<Rightarrow> int" where
  "vnDay now = (now + vnOffset) div msPerDay"

definition isoStamp :: "int \<Rightarrow> string" where
  "isoStamp a =
     isoDate (civil (utcDay a)) @ ''T'' @ padStart2 (show_int (utcHour a)) @ '':'' @
     padStart2 (show_int (utcMinute a)) @ '':00.000Z''"

section \<open>What the specification describes, for comparison\<close>

text \<open>
  The items the category counts run over (events, tasks and items without a type), the
  count of a category among them, and the keys of the two counting objects of
  \<open>createTasksContext\<close>. \<open>firstSeen\<close> lists the distinct elements of a list in the order of
  their first occurrence. \<open>two n\<close> is \<open>n\<close> in two decimal digits.
\<close>

definition combinedItems :: "item list \<Rightarrow> item list" where
  "combinedItems ts = filter (\<lambda>i. isEvent i \<or> isTaskItem i) ts"

definition categoryTotal :: "item list \<Rightarrow> string \<Rightarrow> nat" where
  "categoryTotal ts c = count (\<lambda>i. is_str (category i) c) (combinedItems ts)"

definition categoryKey :: "item \<Rightarrow> string" where
  "categoryKey t = orElse (category t) ''other''"

definition priorityKey :: "item \<Rightarrow> string" where
  "priorityKey t = orElse (priority t) ''none''"

definition firstSeen :: "'a list \<Rightarrow> 'a list" where
  "firstSeen xs = rev (remdups (rev xs))"

definition two :: "nat \<Rightarrow> string" where
  "two n = [digit (n div 10), digit (n mod 10)]"

text \<open>
  A priority row as the specification describes it: the tasks of a priority, those of them
  that are completed, the completion rate in percent, and the due dates that are present.
\<close>

definition priorityTotal :: "item list \<Rightarrow> string \<Rightarrow> nat" where
  "priorityTotal ts p = count (\<lambda>t. isTaskItem t \<and> is_str (priority t) p) ts"

definition priorityCompleted :: "item list \<Rightarrow> string \<Rightarrow> nat" where
  "priorityCompleted ts p =
     count (\<lambda>t. (isTaskItem t \<and> is_str (priority t) p) \<and> is_str (status t) ''completed'') ts"

definition priorityDueDates :: "item list \<Rightarrow> string \<Rightarrow> jsdate list" where
  "priorityDueDates ts p =
     map (\<lambda>t. the (dueDate t))
       (filter (\<lambda>t. (isTaskItem t \<and> is_str (priority t) p) \<and> date_truthy (dueDate t)) ts)"

text \<open>The percentage of the specification: the exact ratio, rounded.\<close>

definition percent :: "nat \<Rightarrow> nat \<Rightarrow> int" where
  "percent completed totalN =
     (if totalN = 0 then 0 else jsround (100 * real completed / real totalN))"

text \<open>The counts of one key of the priority object of \<open>createTasksContext\<close>.\<close>

definition keyTotal :: "item list \<Rightarrow> string \<Rightarrow> nat" where
  "keyTotal ts p = count (\<lambda>t. priorityKey t = p) ts"

definition keyCompleted :: "item list \<Rightarrow> string \<Rightarrow> nat" where
  "keyCompleted ts p = count (\<lambda>t. priorityKey t = p \<and> is_str (status t) ''completed'') ts"

definition keyDeadlines :: "item list \<Rightarrow> string \<Rightarrow> string list" where
  "keyDeadlines ts p =
     map (\<lambda>t. raw (the (dueDate t)))
       (filter (\<lambda>t. priorityKey t = p \<and> date_truthy (dueDate t)) ts)"

definition keyData :: "item list \<Rightarrow> string \<Rightarrow> priorityData" where
  "keyData ts p =
     \<lparr> pd_total = keyTotal ts p, pd_completed = keyCompleted ts p,
       pd_deadlines = keyDeadlines ts p \<rparr>"

text \<open>
  The all-zero summary of \<open>createAnalyticsContext\<close>, and an item with no field at all.
\<close>

definition zeroAnalyticsContext :: analyticsContext where
  "zeroAnalyticsContext =
     \<lparr> ac_totalEvents = 0, ac_totalTasks = 0, ac_totalItems = 0, ac_completedTasks = 0,
       ac_overdueTasks = 0, ac_productivityScore = 0, ac_averageCompletionTime = 0,
       ac_timeEstimationAccuracy = 0, ac_averageOverrun = 0,
       ac_categoryStats = [''academic,0'', ''work,0'', ''personal,0'', ''health,0'', ''social,0''],
       ac_priorityStats = [''urgent,0,0,0,'', ''high,0,0,0,'', ''medium,0,0,0,'', ''low,0,0,0,''],
       ac_weeklyEventTime = 0, ac_completionRate = 0, ac_events = [], ac_tasks = [],
       ac_heatmapData = None, ac_heatmapAnalysis = None \<rparr>"

definition blankItem :: item where
  "blankItem =
     \<lparr> title = None, itype = None, category = None, priority = None, status = None,
       dueDate = None, startTime = None, endTime = None, estimatedDuration = None \<rparr>"

text \<open>
  The specification's scan of a reply: every fenced block tagged json, in the order of the
  text, each found as the handler finds its one block.
\<close>

lemma splitAtFirst_shorter:
  "splitAtFirst pat s = Some (before, after) \<Longrightarrow> length after \<le> length s"
  by (induction s arbitrary: before) (auto split: if_splits)

lemma dropLeading_shorter: "length (dropLeading ws s) \<le> length s"
proof (induction ws s rule: dropLeading.induct)
  case (1 ws s)
  show ?case
  proof (cases "leading ws s")
    case None
    then show ?thesis by (simp add: dropLeading.simps [of ws s])
  next
    case (Some w)
    then show ?thesis using 1 [OF Some] by (simp add: dropLeading.simps [of ws s])
  qed
qed

lemma jsonMatchRest_shorter:
  assumes "jsonMatchRest s = Some (body, rest)"
  shows "length rest < length s"
proof -
  from assms obtain before afterTag b where
    1: "splitAtFirst ''```json'' s = Some (before, afterTag)" and
    2: "splitAtFirst ''```'' (trimStart afterTag) = Some (b, rest)"
    by (auto simp: jsonMatchRest_def split: option.splits prod.splits)
  have "length afterTag < length s"
    using 1
  proof (induction s arbitrary: before)
    case Nil
    then show ?case by simp
  next
    case (Cons c cs)
    then show ?case by (auto split: if_splits)
  qed
  moreover have "length rest \<le> length (trimStart afterTag)"
    using 2 by (rule splitAtFirst_shorter)
  moreover have "length (trimStart afterTag) \<le> length afterTag"
    unfolding trimStart_def by (rule dropLeading_shorter)
  ultimately show ?thesis by linarith
qed

function allJsonBlocks :: "string \<Rightarrow> string list" where
  "allJsonBlocks text =
     (case jsonMatchRest text of
        None \<Rightarrow> []
      | Some (body, rest) \<Rightarrow> body # allJsonBlocks rest)"
  by pat_completeness auto
termination
  by (relation "measure length") (auto dest: jsonMatchRest_shorter)

declare allJsonBlocks.simps [simp del]

section \<open>The platform: results\<close>

lemma roundHalfEven_error: "\<bar>of_int (roundHalfEven x) - x\<bar> \<le> 1 / 2"
  unfolding roundHalfEven_def Let_def by (auto simp: abs_if) linarith+

lemma roundHalfEven_le: "x \<le> of_int N \<Longrightarrow> roundHalfEven x \<le> N"
  unfolding roundHalfEven_def Let_def
  by (auto simp: floor_le_iff)

lemma roundHalfEven_ge: "of_int N \<le> x \<Longrightarrow> N \<le> roundHalfEven x"
  unfolding roundHalfEven_def Let_def
  by (auto simp: le_floor_iff) linarith+

lemma binade_upper: "0 < x \<Longrightarrow> x < 2 ^ (n + 1) \<Longrightarrow> binade k x \<le> int n"
proof (induction k arbitrary: x n)
  case 0
  then show ?case by simp
next
  case (Suc k)
  show ?case
  proof (cases "x < 1")
    case True
    then have "binade k (2 * x) \<le> int 0" using Suc.prems by (intro Suc.IH) simp_all
    then show ?thesis using True by simp
  next
    case False
    show ?thesis
    proof (cases "2 \<le> x")
      case True
      then obtain m where n: "n = Suc m" using Suc.prems by (cases n) auto
      have "binade k (x / 2) \<le> int m" using Suc.prems True n by (intro Suc.IH) simp_all
      then show ?thesis using True False n by simp
    next
      case F2: False
      then show ?thesis using False by simp
    qed
  qed
qed

text \<open>
  Within its steps, \<open>binade\<close> finds the exponent: the power of two at or below \<open>x\<close>.
\<close>

lemma binade_exact:
  "0 < x \<Longrightarrow> 1 / 2 ^ k \<le> x \<Longrightarrow> x < 2 ^ k \<Longrightarrow>
     2 powi (binade k x) \<le> x \<and> x < 2 powi (binade k x + 1)"
proof (induction k arbitrary: x)
  case 0
  then show ?case by simp
next
  case (Suc k)
  show ?case
  proof (cases "x < 1")
    case True
    show ?thesis
    proof (cases k)
      case 0
      then show ?thesis using Suc.prems True by (simp add: power_int_minus field_simps)
    next
      case (Suc j)
      have "(1 :: real) \<le> 2 ^ j" by simp
      then have "x < 2 ^ j" using True by linarith
      then have "2 * x < 2 ^ k" using Suc by simp
      then have "2 powi (binade k (2 * x)) \<le> 2 * x \<and> 2 * x < 2 powi (binade k (2 * x) + 1)"
        using Suc.prems True by (intro Suc.IH) (simp_all add: field_simps)
      then show ?thesis using True by (simp add: power_int_diff power_int_add)
    qed
  next
    case False
    show ?thesis
    proof (cases "2 \<le> x")
      case True
      have "1 / 2 ^ k \<le> (1 :: real)" by (simp add: field_simps)
      then have "1 / 2 ^ k \<le> x / 2" using True by linarith
      then have "2 powi (binade k (x / 2)) \<le> x / 2 \<and> x / 2 < 2 powi (binade k (x / 2) + 1)"
        using Suc.prems True by (intro Suc.IH) simp_all
      then show ?thesis using True False by (simp add: power_int_add)
    next
      case F2: False
      then show ?thesis using False by simp
    qed
  qed
qed

lemma ulp_pos: "0 < ulp e"
  by (simp add: ulp_def)

lemma ulp_low: "e \<le> 52 \<Longrightarrow> ulp e = 1 / 2 ^ nat (52 - e)"
  by (auto simp: ulp_def)

lemma ulp_mono: "e \<le> e' \<Longrightarrow> e' \<le> 52 \<Longrightarrow> ulp e \<le> ulp e'"
  by (simp add: ulp_low frac_le power_increasing)

lemma toDouble_pos:
  "0 < x \<Longrightarrow>
     toDouble x = real_of_int (roundHalfEven (x / ulp (max (binade 1100 x) (- 1022)))) *
       ulp (max (binade 1100 x) (- 1022))"
  by (simp add: toDouble_def Let_def)

lemma toDouble_nonneg: "0 \<le> x \<Longrightarrow> 0 \<le> toDouble x"
proof (cases "x = 0")
  case True
  then show ?thesis by (simp add: toDouble_def)
next
  case False
  assume "0 \<le> x"
  then have pos: "0 < x" using False by simp
  define u where "u = ulp (max (binade 1100 x) (- 1022))"
  have u: "0 < u" by (simp add: u_def ulp_pos)
  have "0 \<le> roundHalfEven (x / u)"
    using roundHalfEven_ge [of 0 "x / u"] pos u by simp
  then show ?thesis using u by (simp add: toDouble_pos [OF pos] u_def [symmetric])
qed

text \<open>Rounding does not cross a whole number below \<open>2 ^ 53\<close>.\<close>

lemma toDouble_le_nat:
  assumes "0 \<le> x" "x \<le> real N" "x < 2 ^ 53"
  shows "toDouble x \<le> real N"
proof (cases "x = 0")
  case True
  then show ?thesis by (simp add: toDouble_def)
next
  case False
  then have pos: "0 < x" using assms by simp
  define e where "e = max (binade 1100 x) (- 1022)"
  have "binade 1100 x \<le> int 52" using pos assms(3) by (intro binade_upper) simp_all
  then have e: "e \<le> 52" by (simp add: e_def)
  define M where "M = (2 :: nat) ^ nat (52 - e)"
  have u: "ulp e = 1 / real M" using e by (simp add: ulp_low M_def)
  have M: "0 < M" by (simp add: M_def)
  have "x / ulp e \<le> of_int (int (N * M))" using assms M by (simp add: u mult_right_mono)
  then have "roundHalfEven (x / ulp e) \<le> int (N * M)" by (rule roundHalfEven_le)
  then have "real_of_int (roundHalfEven (x / ulp e)) \<le> real (N * M)"
    by (metis of_int_le_iff of_int_of_nat_eq)
  then have "real_of_int (roundHalfEven (x / ulp e)) * ulp e \<le> real N"
    using M by (simp add: u field_simps)
  then show ?thesis by (simp add: toDouble_pos [OF pos] e_def [symmetric])
qed

text \<open>The error of a rounding is at most half the distance between neighbours.\<close>

lemma toDouble_error:
  assumes "0 < x" "x < 2 ^ (n + 1)" "n \<le> 52"
  shows "\<bar>toDouble x - x\<bar> \<le> ulp (int n) / 2"
proof -
  define e where "e = max (binade 1100 x) (- 1022)"
  have "binade 1100 x \<le> int n" using assms by (intro binade_upper) simp_all
  then have e: "e \<le> int n" by (simp add: e_def)
  have le: "ulp e \<le> ulp (int n)" using e assms(3) by (intro ulp_mono) simp_all
  have t: "toDouble x = real_of_int (roundHalfEven (x / ulp e)) * ulp e"
    by (simp add: toDouble_pos [OF assms(1)] e_def [symmetric])
  have "\<bar>real_of_int (roundHalfEven (x / ulp e)) - x / ulp e\<bar> \<le> 1 / 2"
    by (rule roundHalfEven_error)
  then have "\<bar>real_of_int (roundHalfEven (x / ulp e)) - x / ulp e\<bar> * ulp e \<le> 1 / 2 * ulp e"
    using ulp_pos [of e] by (intro mult_right_mono) simp_all
  moreover have "(real_of_int (roundHalfEven (x / ulp e)) - x / ulp e) * ulp e = toDouble x - x"
    using ulp_pos [of e] by (simp add: t left_diff_distrib)
  then have "\<bar>real_of_int (roundHalfEven (x / ulp e)) - x / ulp e\<bar> * \<bar>ulp e\<bar> = \<bar>toDouble x - x\<bar>"
    by (simp only: abs_mult [symmetric])
  then have "\<bar>real_of_int (roundHalfEven (x / ulp e)) - x / ulp e\<bar> * ulp e = \<bar>toDouble x - x\<bar>"
    using ulp_pos [of e] by simp
  ultimately show ?thesis using le by simp
qed

text \<open>
  The rounded percentage of \<open>c\<close> out of \<open>t\<close>, as the platform computes it, is an integer
  from 0 to 100 whenever \<open>c\<close> is at most \<open>t\<close>, and it is within a half and \<open>2 ^ - 45\<close> of the
  exact percentage.
\<close>

lemma roundPercent_range:
  assumes "c \<le> t"
  shows "0 \<le> roundPercent c t \<and> roundPercent c t \<le> 100"
proof -
  define q where "q = toDouble (real c / real t)"
  define p where "p = toDouble (q * 100)"
  have "real c / real t \<le> 1" using assms by (cases "t = 0") simp_all
  then have "q \<le> 1" unfolding q_def using toDouble_le_nat [of "real c / real t" 1] by simp
  moreover have q0: "0 \<le> q" unfolding q_def by (intro toDouble_nonneg) simp
  ultimately have "p \<le> 100" "0 \<le> p"
    unfolding p_def using toDouble_le_nat [of "q * 100" 100] toDouble_nonneg [of "q * 100"]
    by simp_all
  then have "\<lfloor>p + 1 / 2\<rfloor> \<le> 100" "0 \<le> \<lfloor>p + 1 / 2\<rfloor>"
    by (simp_all add: floor_le_iff le_floor_iff)
  then show ?thesis by (simp add: roundPercent_def jsround_def p_def q_def)
qed

lemma roundPercent_near:
  assumes "c \<le> t" "0 < t"
  shows "\<bar>real_of_int (roundPercent c t) - 100 * real c / real t\<bar> \<le> 1 / 2 + 1 / 2 ^ 45"
proof -
  define x where "x = real c / real t"
  define q where "q = toDouble x"
  define p where "p = toDouble (q * 100)"
  have x: "0 \<le> x" "x \<le> 1" using assms by (simp_all add: x_def)
  have q: "0 \<le> q" "q \<le> 1"
    unfolding q_def using x toDouble_le_nat [of x 1] by (simp_all add: toDouble_nonneg)
  have eq: "\<bar>q - x\<bar> \<le> 1 / 2 ^ 53"
  proof (cases "x = 0")
    case True
    then show ?thesis by (simp add: q_def toDouble_def)
  next
    case False
    then have "\<bar>toDouble x - x\<bar> \<le> ulp (int 0) / 2"
      using x by (intro toDouble_error) simp_all
    then show ?thesis by (simp add: q_def ulp_def)
  qed
  have ep: "\<bar>p - q * 100\<bar> \<le> 1 / 2 ^ 47"
  proof (cases "q = 0")
    case True
    then show ?thesis by (simp add: p_def toDouble_def)
  next
    case False
    then have "\<bar>toDouble (q * 100) - q * 100\<bar> \<le> ulp (int 6) / 2"
      using q by (intro toDouble_error) simp_all
    then show ?thesis by (simp add: p_def ulp_def)
  qed
  have "\<bar>real_of_int \<lfloor>p + 1 / 2\<rfloor> - p\<bar> \<le> 1 / 2" by linarith
  moreover have "\<bar>p - 100 * x\<bar> \<le> 1 / 2 ^ 47 + 100 / 2 ^ 53" using eq ep by linarith
  moreover have "(1 / 2 ^ 47 + 100 / 2 ^ 53 :: real) \<le> 1 / 2 ^ 45" by simp
  ultimately have "\<bar>real_of_int \<lfloor>p + 1 / 2\<rfloor> - 100 * x\<bar> \<le> 1 / 2 + 1 / 2 ^ 45" by linarith
  then show ?thesis by (simp add: roundPercent_def jsround_def p_def q_def x_def)
qed

lemma roundedRate_range: "c \<le> t \<Longrightarrow> 0 \<le> roundedRate c t \<and> roundedRate c t \<le> 100"
  using roundPercent_range [of c t] by (simp add: roundedRate_def)

text \<open>
  23 of 40: the quotient 0.575 is not a binary64 value, its nearest one times 100 rounds to
  a value just below 57.5, and the percentage is 57, where the exact ratio rounds to 58.
\<close>

lemma rounding_example:
  "toDouble (23 / 40) = 5179139571476070 / 2 ^ 53
   \<and> toDouble (toDouble (23 / 40) * 100) = 8092405580431359 / 2 ^ 47
   \<and> roundedRate 23 40 = 57 \<and> percent 23 40 = 58"
  by code_simp

section \<open>The stat encoders: results\<close>

lemma digit_simps:
  "digit 0 = CHR ''0''" "digit 1 = CHR ''1''" "digit 2 = CHR ''2''" "digit 3 = CHR ''3''"
  "digit 4 = CHR ''4''" "digit 5 = CHR ''5''" "digit 6 = CHR ''6''" "digit 7 = CHR ''7''"
  "digit 8 = CHR ''8''" "digit 9 = CHR ''9''" "digit (Suc 0) = CHR ''1''"
  by (simp_all add: digit_def)

lemmas show_simps = show_int_def show_nat.simps digit_simps

lemmas item_simps = isEvent_def isTaskItem_def is_str_def truthy_def orElse_def date_truthy_def
  date_time_def blankItem_def

subsection \<open>Counting by key\<close>

lemma firstSeen_snoc:
  "firstSeen (xs @ [x]) = (if x \<in> set xs then firstSeen xs else firstSeen xs @ [x])"
  by (simp add: firstSeen_def)

lemma firstSeen_distinct: "distinct (firstSeen xs)"
  by (simp add: firstSeen_def)

lemma firstSeen_set: "set (firstSeen xs) = set xs"
  by (simp add: firstSeen_def)

lemma keyOrder_set: "set (keyOrder ks) = set ks"
  by (auto simp: keyOrder_def)

text \<open>An object that holds \<open>f k\<close> under each key \<open>k\<close> of a list without repetition.\<close>

lemma map_of_table:
  "map_of (map (\<lambda>c. (c, f c)) ks) k = (if k \<in> set ks then Some (f k) else None)"
  by (induction ks) auto

lemma setOwn_table:
  assumes "distinct ks"
  shows "setOwn k v (map (\<lambda>c. (c, f c)) ks) =
     (if k \<in> set ks then map (\<lambda>c. (c, if c = k then v else f c)) ks
      else map (\<lambda>c. (c, f c)) ks @ [(k, v)])"
  using assms by (induction ks) auto

lemma objectKeys_table: "objectKeys (map (\<lambda>c. (c, f c)) ks) = keyOrder ks"
  by (simp add: objectKeys_def comp_def)

lemma categoryCount_snoc:
  "categoryCount (ts @ [t]) = bumpCount (categoryKey t) (categoryCount ts)"
  by (simp add: categoryCount_def categoryKey_def)

text \<open>
  When no category names a member of \<^verbatim>\<open>Object.prototype\<close>, the object holds, under each
  category in the order of first occurrence, the number of its items.
\<close>

lemma categoryCount_firstSeen:
  assumes "list_all (\<lambda>t. categoryKey t \<notin> set protoMembers) ts"
  shows "categoryCount ts =
     map (\<lambda>c. (c, Num (count (\<lambda>t. categoryKey t = c) ts))) (firstSeen (map categoryKey ts))"
  using assms
proof (induction ts rule: rev_induct)
  case Nil
  then show ?case by (simp add: categoryCount_def firstSeen_def)
next
  case (snoc t ts)
  then have IH: "categoryCount ts =
     map (\<lambda>c. (c, Num (count (\<lambda>t. categoryKey t = c) ts))) (firstSeen (map categoryKey ts))"
    and plain: "categoryKey t \<notin> set protoMembers"
    by simp_all
  have absent: "count (\<lambda>u. categoryKey u = categoryKey t) ts = 0"
    if "categoryKey t \<notin> categoryKey ` set ts"
    using that by (auto simp: count_def filter_empty_conv image_iff)
  show ?case
    using absent plain
    by (auto simp: categoryCount_snoc IH bumpCount_def map_of_table setOwn_table
        firstSeen_distinct firstSeen_set firstSeen_snoc count_def)
qed

lemma categoryTokens_table:
  "map (categoryToken (map (\<lambda>c. (c, Num (f c))) ks)) (keyOrder ks) =
     map (\<lambda>c. c @ '','' @ show_nat (f c)) (keyOrder ks)"
  by (rule map_cong) (simp_all add: categoryToken_def map_of_table keyOrder_set show_slot_def)

lemma priorityCountFrom_snoc:
  "priorityCountFrom obj (ts @ [t]) =
     (case priorityCountFrom obj ts of Inl e \<Rightarrow> Inl e | Inr obj' \<Rightarrow> bumpPriority t obj')"
  by (induction ts arbitrary: obj) (auto split: sum.splits)

lemma keyData_snoc:
  "keyData (ts @ [t]) p = (if priorityKey t = p then tally t (keyData ts p) else keyData ts p)"
  by (simp add: keyData_def keyTotal_def keyCompleted_def keyDeadlines_def count_def tally_def)

lemma keyData_absent:
  "p \<notin> priorityKey ` set ts \<Longrightarrow>
     keyData ts p = \<lparr> pd_total = 0, pd_completed = 0, pd_deadlines = [] \<rparr>"
  by (auto simp: keyData_def keyTotal_def keyCompleted_def keyDeadlines_def count_def
      filter_empty_conv image_iff)

text \<open>
  The loop over the priorities throws exactly when a task whose priority names a member of
  \<^verbatim>\<open>Object.prototype\<close> has a due date. Otherwise the object holds a row under each
  priority that names no such member, in the order of first occurrence; the tasks of the
  other priorities leave no row.
\<close>

lemma priorityCount_rows:
  "priorityCount ts =
     (if list_ex (\<lambda>t. priorityKey t \<in> set protoMembers \<and> date_truthy (dueDate t)) ts
      then Inl TypeError
      else Inr (map (\<lambda>p. (p, keyData ts p))
                  (firstSeen (filter (\<lambda>p. p \<notin> set protoMembers) (map priorityKey ts)))))"
proof (induction ts rule: rev_induct)
  case Nil
  then show ?case by (simp add: priorityCount_def firstSeen_def)
next
  case (snoc t ts)
  let ?raise = "\<lambda>t. priorityKey t \<in> set protoMembers \<and> date_truthy (dueDate t)"
  let ?keys = "\<lambda>ts. firstSeen (filter (\<lambda>p. p \<notin> set protoMembers) (map priorityKey ts))"
  show ?case
  proof (cases "list_ex ?raise ts")
    case True
    then show ?thesis using snoc
      by (simp add: priorityCount_def priorityCountFrom_snoc)
  next
    case False
    then have IH: "priorityCount ts = Inr (map (\<lambda>p. (p, keyData ts p)) (?keys ts))"
      using snoc by simp
    have step: "priorityCount (ts @ [t]) =
        bumpPriority t (map (\<lambda>p. (p, keyData ts p)) (?keys ts))"
      using IH by (simp add: priorityCount_def priorityCountFrom_snoc)
    show ?thesis
    proof (cases "priorityKey t \<in> set protoMembers")
      case True
      then have same: "?keys (ts @ [t]) = ?keys ts" by simp
      have "keyData (ts @ [t]) p = keyData ts p" if "p \<in> set (?keys ts)" for p
        using that True by (auto simp: keyData_snoc firstSeen_set)
      then have "map (\<lambda>p. (p, keyData (ts @ [t]) p)) (?keys ts) =
          map (\<lambda>p. (p, keyData ts p)) (?keys ts)"
        by (intro map_cong) simp_all
      then show ?thesis
        using True False
        by (simp add: step same bumpPriority_def Let_def priorityKey_def [symmetric]
            map_of_table firstSeen_set)
    next
      case plain: False
      show ?thesis
      proof (cases "priorityKey t \<in> priorityKey ` set ts")
        case True
        then show ?thesis
          using plain False
          by (simp add: step bumpPriority_def Let_def priorityKey_def [symmetric]
              map_of_table setOwn_table firstSeen_distinct firstSeen_set firstSeen_snoc
              keyData_snoc)
      next
        case absent: False
        then have "\<And>c. c \<in> set ts \<Longrightarrow> priorityKey t \<noteq> priorityKey c" by auto
        then show ?thesis
          using plain False absent keyData_absent [OF absent]
          by (simp add: step bumpPriority_def Let_def priorityKey_def [symmetric]
              map_of_table setOwn_table firstSeen_distinct firstSeen_set firstSeen_snoc
              keyData_snoc)
      qed
    qed
  qed
qed

subsection \<open>When createTasksContext returns\<close>

lemma createTasksContext_raises:
  "(createTasksContext srt now tasks hi = Inl e) =
     (\<exists>ts. tasks = Some ts \<and>
        list_ex (\<lambda>t. priorityKey t \<in> set protoMembers \<and> date_truthy (dueDate t)) ts)"
proof (cases tasks)
  case None
  then show ?thesis by (simp add: createTasksContext_def)
next
  case (Some ts)
  then show ?thesis
    by (cases e; cases ts) (simp_all add: createTasksContext_def Let_def priorityCount_rows)
qed

lemma createTasksContext_returns:
  "list_all (\<lambda>t. priorityKey t \<notin> set protoMembers \<or> \<not> date_truthy (dueDate t)) ts \<Longrightarrow>
     \<exists>ctx. createTasksContext srt now (Some ts) hi = Inr ctx"
proof -
  assume a: "list_all (\<lambda>t. priorityKey t \<notin> set protoMembers \<or> \<not> date_truthy (dueDate t)) ts"
  have "createTasksContext srt now (Some ts) hi \<noteq> Inl TypeError"
    using a by (auto simp: createTasksContext_raises list_all_iff list_ex_iff)
  then show ?thesis by (cases "createTasksContext srt now (Some ts) hi") (auto intro: jserror.exhaust)
qed

lemma tasksContext_categoryStats:
  assumes "createTasksContext srt now (Some ts) hi = Inr ctx"
    "list_all (\<lambda>t. categoryKey t \<notin> set protoMembers) ts"
  shows "tc_categoryStats ctx =
     (if ts = [] then None
      else Some (map (\<lambda>c. c @ '','' @ show_nat (count (\<lambda>t. categoryKey t = c) ts))
                   (keyOrder (firstSeen (map categoryKey ts)))))"
proof (cases "ts = []")
  case True
  then show ?thesis using assms(1) by (auto simp: createTasksContext_def)
next
  case False
  then show ?thesis
    using assms(1)
    by (auto simp: createTasksContext_def Let_def categoryCount_firstSeen [OF assms(2)]
        objectKeys_table categoryTokens_table split: sum.splits)
qed

subsection \<open>Category counts\<close>

lemma event_not_taskItem: "\<not> (isEvent i \<and> isTaskItem i)"
  by (auto simp: isEvent_def isTaskItem_def is_str_def truthy_def)

lemma filter_events_tasks:
  "length (filter P (filter isEvent xs @ filter isTaskItem xs)) =
   length (filter P (filter (\<lambda>i. isEvent i \<or> isTaskItem i) xs))"
  using event_not_taskItem by (induction xs) auto

lemma categoryStat_total:
  "categoryStat (filter isEvent ts @ filter isTaskItem ts) c =
     c @ '','' @ show_nat (categoryTotal ts c)"
  unfolding categoryStat_def categoryTotal_def count_def combinedItems_def
  by (simp only: filter_events_tasks)

lemma analyticsContext_categoryStats:
  "map_sum id ac_categoryStats (createAnalyticsContext tz (Some ts) (Some st) acc hm) =
     Inr [''academic,'' @ show_nat (categoryTotal ts ''academic''),
          ''work,'' @ show_nat (categoryTotal ts ''work''),
          ''personal,'' @ show_nat (categoryTotal ts ''personal''),
          ''health,'' @ show_nat (categoryTotal ts ''health''),
          ''social,'' @ show_nat (categoryTotal ts ''social'')]"
  by (simp add: createAnalyticsContext_def Let_def categories_def categoryStat_total)

text \<open>
  C5, as the code has it. \<open>createAnalyticsContext\<close> emits exactly five tokens, one per fixed
  category in the order academic, work, personal, health, social, each with the number of
  items of that category among the events, the tasks and the items without a type.
  \<open>createTasksContext\<close>, when it returns, emits no tokens for an empty collection and
  otherwise, when no category names a member of \<^verbatim>\<open>Object.prototype\<close>, one token per
  distinct category present in the input, an item without a category counting as
  \<^verbatim>\<open>other\<close>: the categories that are array indices first, in ascending order, then the
  others in the order of first occurrence.
\<close>

theorem categoryStats_by_encoder:
  "map_sum id ac_categoryStats (createAnalyticsContext tz (Some ts) (Some st) acc hm) =
     Inr [''academic,'' @ show_nat (categoryTotal ts ''academic''),
          ''work,'' @ show_nat (categoryTotal ts ''work''),
          ''personal,'' @ show_nat (categoryTotal ts ''personal''),
          ''health,'' @ show_nat (categoryTotal ts ''health''),
          ''social,'' @ show_nat (categoryTotal ts ''social'')]
   \<and> (createTasksContext srt now (Some ts) hi = Inr ctx
        \<and> list_all (\<lambda>t. categoryKey t \<notin> set protoMembers) ts
      \<longrightarrow> tc_categoryStats ctx =
            (if ts = [] then None
             else Some (map (\<lambda>c. c @ '','' @ show_nat (count (\<lambda>t. categoryKey t = c) ts))
                          (keyOrder (firstSeen (map categoryKey ts))))))"
  using analyticsContext_categoryStats [of tz ts st acc hm]
    tasksContext_categoryStats [of srt now ts hi ctx]
  by blast

text \<open>
  Four items of the categories b, 10, 9 and b: the two array indices come first, in
  ascending order, then b with its two items.
\<close>

theorem categoryStats_by_encoder_witness:
  "map_sum id tc_categoryStats
     (createTasksContext stableSort 0
        (Some [blankItem \<lparr> category := Some ''b'' \<rparr>, blankItem \<lparr> category := Some ''10'' \<rparr>,
               blankItem \<lparr> category := Some ''9'' \<rparr>, blankItem \<lparr> category := Some ''b'' \<rparr>])
        None)
     = Inr (Some [''9,1'', ''10,1'', ''b,2''])"
proof -
  let ?ts = "[blankItem \<lparr> category := Some ''b'' \<rparr>, blankItem \<lparr> category := Some ''10'' \<rparr>,
              blankItem \<lparr> category := Some ''9'' \<rparr>, blankItem \<lparr> category := Some ''b'' \<rparr>]"
  have plain: "list_all (\<lambda>t. categoryKey t \<notin> set protoMembers) ?ts"
    by (simp add: categoryKey_def item_simps protoMembers_def)
  have "list_all (\<lambda>t. priorityKey t \<notin> set protoMembers \<or> \<not> date_truthy (dueDate t)) ?ts"
    by (simp add: item_simps)
  then obtain ctx where ctx: "createTasksContext stableSort 0 (Some ?ts) None = Inr ctx"
    using createTasksContext_returns by blast
  have tokens: "map (\<lambda>c. c @ '','' @ show_nat (count (\<lambda>t. categoryKey t = c) ?ts))
      (keyOrder (firstSeen (map categoryKey ?ts))) = [''9,1'', ''10,1'', ''b,2'']"
    by code_simp
  have "tc_categoryStats ctx = Some [''9,1'', ''10,1'', ''b,2'']"
    using categoryStats_by_encoder [of 0 ?ts emptyStats None None stableSort 0 None ctx] ctx plain
    by (simp only: tokens) simp
  then show ?thesis by (simp add: ctx)
qed

text \<open>
  C5, as the claim states it, fails on \<open>createTasksContext\<close>: for one social item followed
  by one academic item it emits two tokens, in input order, not the five tokens of the fixed
  list.
\<close>

theorem categoryStats_counterexample:
  "map_sum id tc_categoryStats (createTasksContext stableSort 0
      (Some [blankItem \<lparr> category := Some ''social'' \<rparr>,
             blankItem \<lparr> category := Some ''academic'' \<rparr>]) None)
     = Inr (Some [''social,1'', ''academic,1''])
   \<and> map_sum id tc_categoryStats (createTasksContext stableSort 0
      (Some [blankItem \<lparr> category := Some ''social'' \<rparr>,
             blankItem \<lparr> category := Some ''academic'' \<rparr>]) None)
     \<noteq> Inr (Some [''academic,1'', ''work,0'', ''personal,0'', ''health,0'', ''social,1''])"
proof -
  have "map_sum id tc_categoryStats (createTasksContext stableSort 0
      (Some [blankItem \<lparr> category := Some ''social'' \<rparr>,
             blankItem \<lparr> category := Some ''academic'' \<rparr>]) None)
     = Inr (Some [''social,1'', ''academic,1''])"
    by code_simp
  then show ?thesis by simp
qed

text \<open>
  What the object model adds, on three inputs: a category that names a function of the
  prototype is counted as text, the category \<^verbatim>\<open>__proto__\<close> leaves no token, and a task
  whose priority names a member of the prototype leaves no row.
\<close>

lemma inherited_keys_example:
  "map_sum id tc_categoryStats (createTasksContext stableSort 0
      (Some [blankItem \<lparr> category := Some ''constructor'' \<rparr>]) None)
     = Inr (Some [''constructor,function Object() { [native code] }1''])
   \<and> map_sum id tc_categoryStats (createTasksContext stableSort 0
      (Some [blankItem \<lparr> category := Some ''__proto__'' \<rparr>]) None) = Inr (Some [])
   \<and> map_sum id tc_priorityStats (createTasksContext stableSort 0
      (Some [blankItem \<lparr> priority := Some ''constructor'' \<rparr>,
             blankItem \<lparr> priority := Some ''high'' \<rparr>]) None) = Inr (Some [''high,1,0,0,''])"
  by code_simp

subsection \<open>Priority rows\<close>

lemma show_nat_two: "n < 100 \<Longrightarrow> padStart2 (show_nat n) = two n"
proof -
  assume n: "n < 100"
  show ?thesis
  proof (cases "n < 10")
    case True
    then show ?thesis by (simp add: show_nat.simps padStart2_def two_def digit_simps)
  next
    case False
    then have "n div 10 < 10" using n by simp
    then show ?thesis using False
      by (simp add: show_nat.simps [of n] show_nat.simps [of "n div 10"] padStart2_def two_def)
  qed
qed

lemma pad_two: "0 \<le> i \<Longrightarrow> i < 100 \<Longrightarrow> padStart2 (show_int i) = two (nat i)"
  by (simp add: show_int_def show_nat_two)

lemma hours_range: "0 \<le> getHours tz t \<and> getHours tz t < 24"
  by (simp add: getHours_def msPerDay_def pos_imp_zdiv_nonneg_iff)

lemma minutes_range: "0 \<le> getMinutes tz t \<and> getMinutes tz t < 60"
  by (simp add: getMinutes_def)

lemma seconds_range: "0 \<le> getSeconds tz t \<and> getSeconds tz t < 60"
  by (simp add: getSeconds_def)

lemma millis_range: "0 \<le> getMilliseconds tz t \<and> getMilliseconds tz t < 1000"
  by (simp add: getMilliseconds_def)

lemma encodeDeadline_layout:
  "encodeDeadline tz \<lparr> raw = r, instant = Some t \<rparr> =
     two (nat (getHours tz t)) @ '':'' @ two (nat (getMinutes tz t)) @ '':'' @
     two (nat (getSeconds tz t)) @ ''.'' @ show_nat (nat (getMilliseconds tz t)) @ '':'' @
     show_int (getDate tz t) @ ''.'' @ show_int (getMonth tz t + 1) @ '':'' @
     show_int (getFullYear tz t)"
  using hours_range [of tz t] minutes_range [of tz t] seconds_range [of tz t]
    millis_range [of tz t]
  by (simp add: encodeDeadline_def pad_two) (simp add: show_int_def)

text \<open>
  The example the prompts give for the layout: 23:59:00 on 25 September 2025, in a zone
  seven hours east of UTC.
\<close>

lemma encodeDeadline_example:
  "encodeDeadline (7 * 3600000)
     \<lparr> raw = ''2025-09-25T16:59:00.000Z'', instant = Some 1758819540000 \<rparr>
     = ''23:59:00.0:25.9:2025''"
  by code_simp

lemma rate_of_row: "jsround (completionRateOf c t) = roundedRate c t"
  by (simp add: completionRateOf_def roundedRate_def roundPercent_def jsround_def)

lemma join_nonempty: "(if length ds > 0 then join sep ds else []) = join sep ds"
  by (cases ds) simp_all

lemma priorityStat_row:
  "priorityStat tz (filter isTaskItem ts) p =
     p @ '','' @ show_nat (priorityTotal ts p) @ '','' @ show_nat (priorityCompleted ts p) @ '','' @
     show_int (roundedRate (priorityCompleted ts p) (priorityTotal ts p)) @ '','' @
     join '','' (map (encodeDeadline tz) (priorityDueDates ts p))"
  by (simp add: priorityStat_def priorityTasks_def deadlinesOf_def Let_def rate_of_row
      priorityTotal_def priorityCompleted_def priorityDueDates_def count_def join_nonempty comp_def
      del: length_greater_0_conv)

lemma analyticsContext_priorityStats:
  "map_sum id ac_priorityStats (createAnalyticsContext tz (Some ts) (Some st) acc hm) =
     Inr (map (\<lambda>p. p @ '','' @ show_nat (priorityTotal ts p) @ '','' @
                   show_nat (priorityCompleted ts p) @ '','' @
                   show_int (roundedRate (priorityCompleted ts p) (priorityTotal ts p)) @ '','' @
                   join '','' (map (encodeDeadline tz) (priorityDueDates ts p)))
            [''urgent'', ''high'', ''medium'', ''low''])"
  by (simp add: createAnalyticsContext_def Let_def priorities_def priorityStat_row)

lemma priorityRows_table:
  "map (priorityRow (map (\<lambda>p. (p, keyData ts p)) ks)) (keyOrder ks) =
     map (\<lambda>p. p @ '','' @ show_nat (keyTotal ts p) @ '','' @ show_nat (keyCompleted ts p) @ '','' @
            show_int (roundedRate (keyCompleted ts p) (keyTotal ts p)) @ '','' @
            join '','' (keyDeadlines ts p))
       (keyOrder ks)"
  by (rule map_cong)
     (simp_all add: priorityRow_def map_of_table keyOrder_set keyData_def join_nonempty Let_def
       del: length_greater_0_conv)

lemma tasksContext_priorityStats:
  assumes "list_all (\<lambda>t. priorityKey t \<notin> set protoMembers) ts"
  shows "\<exists>ctx. createTasksContext srt now (Some ts) hi = Inr ctx
     \<and> tc_priorityStats ctx =
         (if ts = [] then None
          else Some (map (\<lambda>p. p @ '','' @ show_nat (keyTotal ts p) @ '','' @
                             show_nat (keyCompleted ts p) @ '','' @
                             show_int (roundedRate (keyCompleted ts p) (keyTotal ts p)) @ '','' @
                             join '','' (keyDeadlines ts p))
                       (keyOrder (firstSeen (map priorityKey ts)))))"
proof (cases "ts = []")
  case True
  then show ?thesis by (simp add: createTasksContext_def)
next
  case False
  have no: "\<not> list_ex (\<lambda>t. priorityKey t \<in> set protoMembers \<and> date_truthy (dueDate t)) ts"
    using assms by (auto simp: list_all_iff list_ex_iff)
  have all: "filter (\<lambda>p. p \<notin> set protoMembers) (map priorityKey ts) = map priorityKey ts"
    using assms by (auto simp: list_all_iff filter_id_conv)
  show ?thesis
    using False no
    by (simp add: createTasksContext_def Let_def priorityCount_rows all objectKeys_table
        priorityRows_table)
qed

lemma length_filter_conj: "length (filter (\<lambda>x. P x \<and> Q x) xs) \<le> length (filter P xs)"
  by (induction xs) auto

lemma completed_le_total:
  "priorityCompleted ts p \<le> priorityTotal ts p" "keyCompleted ts p \<le> keyTotal ts p"
  unfolding priorityCompleted_def priorityTotal_def keyCompleted_def keyTotal_def count_def
  by (rule length_filter_conj)+

text \<open>
  C6, as the code has it. \<open>createAnalyticsContext\<close> emits four rows, for urgent, high, medium
  and low in this order; a row carries the priority, the number of its tasks, the number of
  them that are completed, the rounded percentage and the encoded due dates of those of its
  tasks that have one, joined by commas. The percentage is 0 for no task and otherwise
  \<^verbatim>\<open>Math.round((completed / total) * 100)\<close> as the platform computes it in binary64: an
  integer from 0 to 100, within a half and \<open>2 ^ - 45\<close> of the exact percentage. A due date is
  encoded as hours, minutes and seconds in two digits each, then the milliseconds, the day,
  the month and the year in plain decimal, with the separators of
  \<^verbatim>\<open>HH:MM:SS.mmm:DD.M:YYYY\<close>; a due date that is not a valid date is written with
  \<^verbatim>\<open>NaN\<close> in every field. When no priority names a member of \<^verbatim>\<open>Object.prototype\<close>,
  \<open>createTasksContext\<close> returns, with no rows for an empty collection and otherwise one row
  per distinct priority present in the input, a task without a priority counting as
  \<^verbatim>\<open>none\<close>: the priorities that are array indices first, in ascending order, then the
  others in the order of first occurrence; the counts and the percentage of a row are those
  of its key.
\<close>

theorem priorityStats_by_encoder:
  "map_sum id ac_priorityStats (createAnalyticsContext tz (Some ts) (Some st) acc hm) =
     Inr (map (\<lambda>p. p @ '','' @ show_nat (priorityTotal ts p) @ '','' @
                   show_nat (priorityCompleted ts p) @ '','' @
                   show_int (roundedRate (priorityCompleted ts p) (priorityTotal ts p)) @ '','' @
                   join '','' (map (encodeDeadline tz) (priorityDueDates ts p)))
            [''urgent'', ''high'', ''medium'', ''low''])
   \<and> roundedRate c 0 = 0
   \<and> (0 < n \<longrightarrow> roundedRate c n = jsround (toDouble (toDouble (real c / real n) * 100)))
   \<and> (c \<le> n \<longrightarrow> 0 \<le> roundedRate c n \<and> roundedRate c n \<le> 100)
   \<and> (c \<le> n \<and> 0 < n \<longrightarrow>
        \<bar>real_of_int (roundedRate c n) - 100 * real c / real n\<bar> \<le> 1 / 2 + 1 / 2 ^ 45)
   \<and> encodeDeadline tz \<lparr> raw = r, instant = Some t \<rparr> =
       two (nat (getHours tz t)) @ '':'' @ two (nat (getMinutes tz t)) @ '':'' @
       two (nat (getSeconds tz t)) @ ''.'' @ show_nat (nat (getMilliseconds tz t)) @ '':'' @
       show_int (getDate tz t) @ ''.'' @ show_int (getMonth tz t + 1) @ '':'' @
       show_int (getFullYear tz t)
   \<and> encodeDeadline tz \<lparr> raw = r, instant = None \<rparr> = ''NaN:NaN:NaN.NaN:NaN.NaN:NaN''
   \<and> (list_all (\<lambda>t. priorityKey t \<notin> set protoMembers) ts \<longrightarrow>
        (\<exists>ctx. createTasksContext srt now (Some ts) hi = Inr ctx
           \<and> tc_priorityStats ctx =
               (if ts = [] then None
                else Some (map (\<lambda>p. p @ '','' @ show_nat (keyTotal ts p) @ '','' @
                                   show_nat (keyCompleted ts p) @ '','' @
                                   show_int (roundedRate (keyCompleted ts p) (keyTotal ts p)) @
                                   '','' @ join '','' (keyDeadlines ts p))
                             (keyOrder (firstSeen (map priorityKey ts)))))))"
proof -
  have rate: "roundedRate c 0 = 0"
    "0 < n \<longrightarrow> roundedRate c n = jsround (toDouble (toDouble (real c / real n) * 100))"
    by (simp_all add: roundedRate_def roundPercent_def)
  have near: "c \<le> n \<and> 0 < n \<longrightarrow>
        \<bar>real_of_int (roundedRate c n) - 100 * real c / real n\<bar> \<le> 1 / 2 + 1 / 2 ^ 45"
    using roundPercent_near [of c n] by (simp add: roundedRate_def)
  have nan: "encodeDeadline tz \<lparr> raw = r, instant = None \<rparr> = ''NaN:NaN:NaN.NaN:NaN.NaN:NaN''"
    by (simp add: encodeDeadline_def)
  show ?thesis
    using analyticsContext_priorityStats [of tz ts st acc hm] rate near nan
      roundedRate_range [of c n] encodeDeadline_layout [of tz r t]
      tasksContext_priorityStats [of ts srt now hi]
    by blast
qed

text \<open>
  Three tasks of the priorities high, 7 and high, the second one completed: the row of the
  array index comes first. Of three tasks, one completed is 33 percent.
\<close>

theorem priorityStats_by_encoder_witness:
  "map_sum id tc_priorityStats
     (createTasksContext stableSort 0
        (Some [blankItem \<lparr> priority := Some ''high'' \<rparr>,
               blankItem \<lparr> priority := Some ''7'', status := Some ''completed'' \<rparr>,
               blankItem \<lparr> priority := Some ''high'',
                 dueDate := Some \<lparr> raw = ''2025-09-25T16:59:00.000Z'',
                                    instant = Some 1758819540000 \<rparr> \<rparr>])
        None)
     = Inr (Some [''7,1,1,100,'', ''high,2,0,0,2025-09-25T16:59:00.000Z''])
   \<and> roundedRate 1 3 = 33
   \<and> \<bar>real_of_int (roundedRate 1 3) - 100 * real 1 / real 3\<bar> \<le> 1 / 2 + 1 / 2 ^ 45"
proof -
  let ?ts = "[blankItem \<lparr> priority := Some ''high'' \<rparr>,
               blankItem \<lparr> priority := Some ''7'', status := Some ''completed'' \<rparr>,
               blankItem \<lparr> priority := Some ''high'',
                 dueDate := Some \<lparr> raw = ''2025-09-25T16:59:00.000Z'',
                                    instant = Some 1758819540000 \<rparr> \<rparr>]"
  have plain: "list_all (\<lambda>t. priorityKey t \<notin> set protoMembers) ?ts"
    by (simp add: priorityKey_def item_simps protoMembers_def)
  have rows: "map (\<lambda>p. p @ '','' @ show_nat (keyTotal ?ts p) @ '','' @
                     show_nat (keyCompleted ?ts p) @ '','' @
                     show_int (roundedRate (keyCompleted ?ts p) (keyTotal ?ts p)) @
                     '','' @ join '','' (keyDeadlines ?ts p))
               (keyOrder (firstSeen (map priorityKey ?ts)))
      = [''7,1,1,100,'', ''high,2,0,0,2025-09-25T16:59:00.000Z'']"
    by code_simp
  have r: "roundedRate 1 3 = 33"
    by code_simp
  have le: "(1 :: nat) \<le> 3 \<and> (0 :: nat) < 3" by simp
  from priorityStats_by_encoder [of 0 ?ts emptyStats None None 1 3 "[]" 0 stableSort 0 None]
  have near: "\<bar>real_of_int (roundedRate 1 3) - 100 * real 1 / real 3\<bar> \<le> 1 / 2 + 1 / 2 ^ 45"
    and ex: "\<exists>ctx. createTasksContext stableSort 0 (Some ?ts) None = Inr ctx
           \<and> tc_priorityStats ctx =
               (if ?ts = [] then None
                else Some (map (\<lambda>p. p @ '','' @ show_nat (keyTotal ?ts p) @ '','' @
                                   show_nat (keyCompleted ?ts p) @ '','' @
                                   show_int (roundedRate (keyCompleted ?ts p) (keyTotal ?ts p)) @
                                   '','' @ join '','' (keyDeadlines ?ts p))
                             (keyOrder (firstSeen (map priorityKey ?ts)))))"
    using plain le by blast+
  from ex obtain ctx where ctx: "createTasksContext stableSort 0 (Some ?ts) None = Inr ctx"
    and st: "tc_priorityStats ctx = Some [''7,1,1,100,'', ''high,2,0,0,2025-09-25T16:59:00.000Z'']"
    by (auto simp only: rows list.distinct if_False)
  show ?thesis using ctx st r near by simp
qed

text \<open>
  C6, as the claim states it, fails on \<open>createTasksContext\<close>: for one task of high priority
  due at 23:59 on 25 September 2025 it emits the one row of that priority, not four rows,
  and the due date in it is the text the caller sent, not the encoded layout. It fails on the
  percentage in both encoders: of 40 tasks of high priority with 23 completed the row says
  57, where the exact ratio rounds to 58.
\<close>

theorem priorityStats_counterexample:
  "map_sum id tc_priorityStats (createTasksContext stableSort 0
      (Some [blankItem \<lparr> itype := Some ''task'', priority := Some ''high'',
               dueDate := Some \<lparr> raw = ''2025-09-25T16:59:00.000Z'',
                                  instant = Some 1758819540000 \<rparr> \<rparr>]) None)
     = Inr (Some [''high,1,0,0,2025-09-25T16:59:00.000Z''])
   \<and> map_sum id tc_priorityStats (createTasksContext stableSort 0
      (Some [blankItem \<lparr> itype := Some ''task'', priority := Some ''high'',
               dueDate := Some \<lparr> raw = ''2025-09-25T16:59:00.000Z'',
                                  instant = Some 1758819540000 \<rparr> \<rparr>]) None)
     \<noteq> Inr (Some [''urgent,0,0,0,'', ''high,1,0,0,23:59:00.0:25.9:2025'', ''medium,0,0,0,'',
              ''low,0,0,0,''])
   \<and> map_sum id ac_priorityStats (createAnalyticsContext 0
      (Some (replicate 23 (blankItem \<lparr> itype := Some ''task'', priority := Some ''high'',
                             status := Some ''completed'' \<rparr>) @
             replicate 17 (blankItem \<lparr> itype := Some ''task'', priority := Some ''high'',
                             status := Some ''pending'' \<rparr>)))
      (Some emptyStats) None None)
     = Inr [''urgent,0,0,0,'', ''high,40,23,57,'', ''medium,0,0,0,'', ''low,0,0,0,'']
   \<and> map_sum id tc_priorityStats (createTasksContext stableSort 0
      (Some (replicate 23 (blankItem \<lparr> itype := Some ''task'', priority := Some ''high'',
                             status := Some ''completed'' \<rparr>) @
             replicate 17 (blankItem \<lparr> itype := Some ''task'', priority := Some ''high'',
                             status := Some ''pending'' \<rparr>))) None)
     = Inr (Some [''high,40,23,57,''])
   \<and> percent 23 40 = 58"
proof -
  have 1: "map_sum id tc_priorityStats (createTasksContext stableSort 0
      (Some [blankItem \<lparr> itype := Some ''task'', priority := Some ''high'',
               dueDate := Some \<lparr> raw = ''2025-09-25T16:59:00.000Z'',
                                  instant = Some 1758819540000 \<rparr> \<rparr>]) None)
     = Inr (Some [''high,1,0,0,2025-09-25T16:59:00.000Z''])"
    by code_simp
  have 2: "map_sum id ac_priorityStats (createAnalyticsContext 0
      (Some (replicate 23 (blankItem \<lparr> itype := Some ''task'', priority := Some ''high'',
                             status := Some ''completed'' \<rparr>) @
             replicate 17 (blankItem \<lparr> itype := Some ''task'', priority := Some ''high'',
                             status := Some ''pending'' \<rparr>)))
      (Some emptyStats) None None)
     = Inr [''urgent,0,0,0,'', ''high,40,23,57,'', ''medium,0,0,0,'', ''low,0,0,0,'']"
    by code_simp
  have 3: "map_sum id tc_priorityStats (createTasksContext stableSort 0
      (Some (replicate 23 (blankItem \<lparr> itype := Some ''task'', priority := Some ''high'',
                             status := Some ''completed'' \<rparr>) @
             replicate 17 (blankItem \<lparr> itype := Some ''task'', priority := Some ''high'',
                             status := Some ''pending'' \<rparr>))) None)
     = Inr (Some [''high,40,23,57,''])"
    by code_simp
  have 4: "percent 23 40 = 58"
    by code_simp
  show ?thesis using 1 2 3 4 by simp
qed

subsection \<open>Weekly event minutes\<close>

text \<open>
  The week window of \<open>generateFallbackRecommendations\<close>: it starts at a local midnight, on a
  Sunday, ends one millisecond before the seventh midnight after that, and holds \<open>now\<close>.
\<close>

lemma week_window:
  "(startOfWeek tz now + tz) mod msPerDay = 0
   \<and> getDay tz (startOfWeek tz now) = 0
   \<and> endOfWeek tz now = startOfWeek tz now + 7 * msPerDay - 1
   \<and> startOfWeek tz now \<le> now \<and> now \<le> endOfWeek tz now"
proof -
  define D where "D = (now + tz) div msPerDay"
  define w where "w = (D + 4) mod 7"
  have w: "0 \<le> w" "w \<le> 6" by (simp_all add: w_def)
  have s: "startOfWeek tz now = (D - w) * msPerDay - tz"
    by (simp add: startOfWeek_def getDay_def D_def w_def)
  have pos: "0 < msPerDay" by (simp add: msPerDay_def)
  have 1: "(startOfWeek tz now + tz) mod msPerDay = 0" by (simp add: s)
  have "(startOfWeek tz now + tz) div msPerDay = D - w" using pos by (simp add: s)
  moreover have "(D - w + 4) mod 7 = 0" unfolding w_def by presburger
  ultimately have 2: "getDay tz (startOfWeek tz now) = 0" by (simp add: getDay_def)
  have 3: "endOfWeek tz now = startOfWeek tz now + 7 * msPerDay - 1"
    by (simp add: endOfWeek_def msPerDay_def)
  have lo: "D * msPerDay \<le> now + tz"
    unfolding D_def using pos by (metis div_mult_mod_eq le_add_same_cancel1 pos_mod_sign)
  have hi: "now + tz < (D + 1) * msPerDay"
    unfolding D_def using pos
    by (metis distrib_right div_mult_mod_eq add_strict_left_mono mult_1 pos_mod_bound)
  have "(D - w) * msPerDay \<le> D * msPerDay" using w pos by (simp add: mult_right_mono)
  then have 4: "startOfWeek tz now \<le> now" using lo s by linarith
  have "(D + 1) * msPerDay \<le> (D - w + 7) * msPerDay" using w pos by (simp add: mult_right_mono)
  then have 5: "now \<le> endOfWeek tz now" using hi s 3 by (simp add: algebra_simps)
  from 1 2 3 4 5 show ?thesis by blast
qed

text \<open>
  There, the figure is the sum of end minus start, in minutes, over the events that have
  both times and start within the window (when the end times of those events are valid
  dates; otherwise it is NaN).
\<close>

lemma foldl_addMinutes:
  assumes "list_all (\<lambda>e. inWeek tz now e \<and> date_time (endTime e) \<noteq> None) es"
  shows "foldl addMinutes (Some a) es =
     Some (a + (\<Sum>e\<leftarrow>es. real_of_int (the (date_time (endTime e)) - the (date_time (startTime e))) / 60000))"
  using assms
proof (induction es arbitrary: a)
  case Nil
  then show ?case by simp
next
  case (Cons e es)
  then obtain s f where sf: "date_time (startTime e) = Some s" "date_time (endTime e) = Some f"
    "date_truthy (startTime e)" "date_truthy (endTime e)"
    by (auto simp: inWeek_def split: option.splits)
  then have "addMinutes (Some a) e = Some (a + real_of_int (f - s) / 60000)"
    by (simp add: addMinutes_def)
  then show ?case using Cons sf(1,2)
    by (simp add: add.assoc)
qed

lemma weeklyEventTime_sum:
  assumes "list_all (\<lambda>e. date_time (endTime e) \<noteq> None) (filter (inWeek tz now) (filter isEvent ts))"
  shows "weeklyEventTime tz now ts =
     Some (\<Sum>e\<leftarrow>filter (inWeek tz now) (filter isEvent ts).
             real_of_int (the (date_time (endTime e)) - the (date_time (startTime e))) / 60000)"
proof -
  have "list_all (\<lambda>e. inWeek tz now e \<and> date_time (endTime e) \<noteq> None)
      (filter (inWeek tz now) (filter isEvent ts))"
    using assms by (simp add: list_all_iff)
  from foldl_addMinutes [OF this, of 0] show ?thesis by (simp add: weeklyEventTime_def)
qed

text \<open>In \<open>createTasksContext\<close>, when it returns, the figure is the sum of the estimated
  durations of all events.\<close>

lemma tasksContext_weeklyEventTime:
  assumes "ts \<noteq> []"
    "\<not> list_ex (\<lambda>t. priorityKey t \<in> set protoMembers \<and> date_truthy (dueDate t)) ts"
  shows "map_sum id tc_weeklyEventTime (createTasksContext srt now (Some ts) hi) =
     Inr (Some (sumEstimatedDuration (filter isEvent ts)))"
  using assms by (simp add: createTasksContext_def Let_def priorityCount_rows)

text \<open>
  C7. The claim: at every call site that computes it, the weekly event-minutes figure is the
  sum of end minus start, in minutes, over the events that start within the current week.
  \<open>generateFallbackRecommendations\<close> computes that. \<open>createTasksContext\<close> sums
  \<^verbatim>\<open>estimatedDuration\<close> over all events instead: with the current week running from
  1 to 7 November 2026, an event of January 2020 with an estimated duration of 60 counts
  60 minutes there and 0 in the sibling computation, and an event of 3 November 2026 from
  01:00 to 02:30 without an estimated duration counts 0 there and 90 in the sibling.
\<close>

theorem weeklyEventTime_call_sites_disagree:
  "map_sum id tc_weeklyEventTime (createTasksContext srt 1793588400000
      (Some [blankItem \<lparr> itype := Some ''event'',
               startTime := Some \<lparr> raw = ''2020-01-06T01:00:00.000Z'', instant = Some 1578272400000 \<rparr>,
               endTime := Some \<lparr> raw = ''2020-01-06T02:00:00.000Z'', instant = Some 1578276000000 \<rparr>,
               estimatedDuration := Some 60 \<rparr>]) None) = Inr (Some 60)
   \<and> weeklyEventTime 0 1793588400000
      [blankItem \<lparr> itype := Some ''event'',
               startTime := Some \<lparr> raw = ''2020-01-06T01:00:00.000Z'', instant = Some 1578272400000 \<rparr>,
               endTime := Some \<lparr> raw = ''2020-01-06T02:00:00.000Z'', instant = Some 1578276000000 \<rparr>,
               estimatedDuration := Some 60 \<rparr>] = Some 0
   \<and> map_sum id tc_weeklyEventTime (createTasksContext srt 1793588400000
      (Some [blankItem \<lparr> itype := Some ''event'',
               startTime := Some \<lparr> raw = ''2026-11-03T01:00:00.000Z'', instant = Some 1793667600000 \<rparr>,
               endTime := Some \<lparr> raw = ''2026-11-03T02:30:00.000Z'', instant = Some 1793673000000 \<rparr> \<rparr>])
      None) = Inr (Some 0)
   \<and> weeklyEventTime 0 1793588400000
      [blankItem \<lparr> itype := Some ''event'',
               startTime := Some \<lparr> raw = ''2026-11-03T01:00:00.000Z'', instant = Some 1793667600000 \<rparr>,
               endTime := Some \<lparr> raw = ''2026-11-03T02:30:00.000Z'', instant = Some 1793673000000 \<rparr> \<rparr>]
      = Some 90"
  by (simp add: tasksContext_weeklyEventTime priorityKey_def sumEstimatedDuration_def item_simps
      addMinutes_def weeklyEventTime_def inWeek_def startOfWeek_def endOfWeek_def getDay_def
      msPerDay_def)

subsection \<open>Percentages\<close>

text \<open>
  The rounded percentages are integers from 0 to 100: in every priority row of either
  encoder, and in the two rates of \<open>createTasksContext\<close>.
\<close>

lemma row_rate_range:
  "0 \<le> roundedRate (priorityCompleted ts p) (priorityTotal ts p)
   \<and> roundedRate (priorityCompleted ts p) (priorityTotal ts p) \<le> 100
   \<and> 0 \<le> roundedRate (keyCompleted ts p) (keyTotal ts p)
   \<and> roundedRate (keyCompleted ts p) (keyTotal ts p) \<le> 100"
  using roundedRate_range [OF completed_le_total(1)] roundedRate_range [OF completed_le_total(2)]
  by blast

lemma tasksContext_rates_range:
  assumes "createTasksContext srt now tasks hi = Inr ctx"
    "tc_completionRate ctx = Some r \<or> tc_productivityScore ctx = Some r"
  shows "0 \<le> r \<and> r \<le> 100"
proof -
  have le: "count P xs \<le> length xs" for P and xs :: "item list"
    by (simp add: count_def)
  show ?thesis
    using assms roundedRate_range [OF le]
    by (auto simp: createTasksContext_def Let_def split: if_splits sum.splits)
qed

text \<open>
  The percentage of the specification is in that range as well, and differs from the one
  of the platform at 23 of 40 (lemma \<open>rounding_example\<close>).
\<close>

lemma percent_range:
  assumes "c \<le> t"
  shows "0 \<le> percent c t \<and> percent c t \<le> 100"
proof (cases "t > 0")
  case False
  then show ?thesis by (simp add: percent_def)
next
  case True
  define q where "q = real c / real t"
  have "q \<le> 1" "0 \<le> q" using assms True by (simp_all add: q_def)
  then have "\<lfloor>100 * q + 1 / 2\<rfloor> \<le> 100" "0 \<le> \<lfloor>100 * q + 1 / 2\<rfloor>"
    by (simp_all add: floor_le_iff le_floor_iff)
  then have "\<lfloor>100 * real c / real t + 1 / 2\<rfloor> \<le> 100 \<and> 0 \<le> \<lfloor>100 * real c / real t + 1 / 2\<rfloor>"
    by (simp add: q_def)
  then show ?thesis using True by (simp add: percent_def jsround_def)
qed

text \<open>
  C8. The claim: every percentage of the summary is an integer in [0,100], for every
  caller-supplied aggregate. The overall completion rate of \<open>createAnalyticsContext\<close> is
  the caller's count of completed tasks over the number of task items, times 100, neither
  rounded nor bounded: for three tasks of which one is completed it is 100/3, and for one
  task and a reported count of two it is 200.
\<close>

theorem completionRate_not_a_percentage:
  "map_sum id ac_completionRate
     (createAnalyticsContext 0
        (Some [blankItem \<lparr> itype := Some ''task'', status := Some ''pending'' \<rparr>,
               blankItem \<lparr> itype := Some ''task'', status := Some ''pending'' \<rparr>,
               blankItem \<lparr> itype := Some ''task'', status := Some ''completed'' \<rparr>])
        (Some (emptyStats \<lparr> ts_completedTasks := Some 1 \<rparr>)) None None) = Inr (100 / 3)
   \<and> (100 / 3 :: real) \<notin> \<int>
   \<and> map_sum id ac_completionRate
     (createAnalyticsContext 0
        (Some [blankItem \<lparr> itype := Some ''task'', status := Some ''pending'' \<rparr>])
        (Some (emptyStats \<lparr> ts_completedTasks := Some 2 \<rparr>)) None None) = Inr 200"
proof -
  have "(100 / 3 :: real) \<notin> \<int>"
    by (simp add: frac_eq_0_iff [symmetric] frac_def)
  then show ?thesis
    by (simp add: createAnalyticsContext_def Let_def item_simps emptyStats_def orZero_def)
qed

text \<open>
  The binary64 values that the platform returns for the two expressions are no percentages
  either: the one nearest to 100/3 is no integer, and 200 is exact.
\<close>

lemma completionRate_in_binary64:
  "toDouble (toDouble (1 / 3) * 100) = 2345624805922133 / 2 ^ 46
   \<and> (2345624805922133 / 2 ^ 46 :: real) \<notin> \<int>
   \<and> toDouble (toDouble (2 / 1) * 100) = 200"
proof -
  have 1: "toDouble (toDouble (1 / 3) * 100) = 2345624805922133 / 2 ^ 46"
    by code_simp
  have 2: "(2345624805922133 / 2 ^ 46 :: real) \<notin> \<int>"
    by (simp add: frac_eq_0_iff [symmetric] frac_def)
  have 3: "toDouble (toDouble (2 / 1) * 100) = 200"
    by code_simp
  show ?thesis using 1 2 3 by blast
qed

subsection \<open>Totality\<close>

text \<open>
  \<open>createAnalyticsContext\<close> returns for every collection of items and every aggregate; the
  only exceptions it can raise are for a missing \<open>tasks\<close> or \<open>taskStats\<close> argument, which
  its endpoint rejects beforehand. For an empty collection and no aggregates its summary is
  the all-zero one, and the aggregates of the caller are passed on.
\<close>

lemma analyticsContext_returns:
  "\<exists>ctx. createAnalyticsContext tz (Some ts) (Some st) acc hm = Inr ctx"
  by (simp add: createAnalyticsContext_def Let_def)

lemma analyticsContext_of_nothing:
  "createAnalyticsContext tz (Some []) (Some st) acc hm =
     Inr (zeroAnalyticsContext
       \<lparr> ac_completedTasks := orZero (ts_completedTasks st),
         ac_overdueTasks := orZero (ts_overdueTasks st),
         ac_productivityScore := orZero (ts_productivityScore st),
         ac_averageCompletionTime := orZero (ts_averageCompletionTime st),
         ac_timeEstimationAccuracy := orZero (Option.bind acc ta_accuracy),
         ac_averageOverrun := orZero (Option.bind acc ta_averageOverrun),
         ac_weeklyEventTime := orZero (Option.bind hm hi_weeklyEventTime),
         ac_heatmapData := Option.bind hm hi_heatmapData,
         ac_heatmapAnalysis := orNull (Option.bind hm hi_heatmapAnalysis) \<rparr>)"
  by (simp add: createAnalyticsContext_def zeroAnalyticsContext_def Let_def
      categories_def priorities_def categoryStat_def priorityStat_def
      priorityTasks_def deadlinesOf_def completionRateOf_def jsround_def show_simps)

lemma analyticsContext_all_zero:
  "createAnalyticsContext tz (Some []) (Some emptyStats) None None = Inr zeroAnalyticsContext"
  by (simp add: analyticsContext_of_nothing emptyStats_def orZero_def orNull_def
      zeroAnalyticsContext_def)

text \<open>
  \<open>createTasksContext\<close> returns for a missing and for an empty collection. Its summary has
  zero counts and no deadlines, and what its reader finds in the fields that are left out
  is zero or empty.
\<close>

lemma tasksContext_of_nothing:
  assumes "tasks = None \<or> tasks = Some []"
  shows "\<exists>ctx. createTasksContext srt now tasks hi = Inr ctx
     \<and> tc_totalTasks ctx = 0 \<and> tc_pendingTasks ctx = 0 \<and> tc_inProgressTasks ctx = 0
     \<and> tc_completedTasks ctx = 0 \<and> tc_overdueTasks ctx = 0 \<and> tc_urgentTasks ctx = 0
     \<and> tc_highPriorityTasks ctx = 0 \<and> tc_upcomingDeadlines ctx = []
     \<and> read_totalEvents ctx = 0 \<and> read_totalItems ctx = 0 \<and> read_productivityScore ctx = 0
     \<and> read_completionRate ctx = 0 \<and> read_weeklyEventTime ctx = 0
     \<and> read_categoryStats ctx = [] \<and> read_priorityStats ctx = []
     \<and> tc_heatmapData ctx = Option.bind hi hi_heatmapData
     \<and> tc_heatmapAnalysis ctx = orNull (Option.bind hi hi_heatmapAnalysis)"
  using assms
  by (auto simp: createTasksContext_def read_totalEvents_def read_totalItems_def
      read_productivityScore_def read_completionRate_def read_weeklyEventTime_def
      read_categoryStats_def read_priorityStats_def orZero_def)


lemma blank_item_example:
  "createAnalyticsContext 0 (Some [blankItem]) (Some emptyStats) None None =
     Inr (zeroAnalyticsContext \<lparr> ac_totalTasks := 1, ac_totalItems := 1, ac_tasks := [blankItem] \<rparr>)
   \<and> createTasksContext stableSort 0 (Some [blankItem]) None =
       Inr \<lparr> tc_totalTasks = 1, tc_totalEvents = Some 0, tc_totalItems = Some 1,
             tc_pendingTasks = 0, tc_inProgressTasks = 0, tc_completedTasks = 0,
             tc_overdueTasks = 0, tc_urgentTasks = 0, tc_highPriorityTasks = 0,
             tc_productivityScore = Some 0, tc_completionRate = Some 0,
             tc_weeklyEventTime = Some 0,
             tc_categoryStats = Some [''other,1''], tc_priorityStats = Some [''none,1,0,0,''],
             tc_upcomingDeadlines =
               [\<lparr> dl_title = None, dl_dueDate = None, dl_priority = ''none'', dl_category = None,
                  dl_type = None \<rparr>],
             tc_heatmapData = None, tc_heatmapAnalysis = None \<rparr>"
  by code_simp

text \<open>
  A request whose items make \<open>createTasksContext\<close> raise gets no response from the chat
  endpoint, and the model is not called: the exception is raised in the \<^verbatim>\<open>try\<close> block
  (unless the handler has failed on the pending summary before that), and again in the
  \<^verbatim>\<open>catch\<close> block, where the fallback responder encodes the items once more.
\<close>

lemma fallbackResponse_raises:
  "list_ex (\<lambda>t. priorityKey t \<in> set protoMembers \<and> date_truthy (dueDate t)) ts \<Longrightarrow>
     generateFallbackResponse srt lc now msg (Some ts) = Inl TypeError"
  using createTasksContext_raises [of srt now "Some ts" None TypeError]
  by (simp add: generateFallbackResponse_def)

lemma chat_unhandled:
  assumes "truthy (cr_message req)" "cr_tasks req = Some ts"
    "list_ex (\<lambda>t. priorityKey t \<in> set protoMembers \<and> date_truthy (dueDate t)) ts"
  shows "sent (chat srt lc parse ff now m req outcome) = Unhandled TypeError
     \<and> \<not> modelCalled (chat srt lc parse ff now m req outcome)"
proof -
  have c: "createTasksContext srt now (Some ts) h = Inl TypeError" for h
    using assms(3) createTasksContext_raises [of srt now "Some ts" h TypeError] by simp
  have f: "generateFallbackResponse srt lc now (the (cr_message req)) (Some ts) = Inl TypeError"
    using assms(3) by (rule fallbackResponse_raises)
  show ?thesis
    using assms(1,2)
    by (simp add: chat_def chatCatch_def Let_def c f split: prod.splits summaryResult.splits)
qed

text \<open>
  C9. The claim: the stat encoder is total and never raises on a partially populated
  input. \<open>createTasksContext\<close> raises a TypeError for one item that has a due date and the
  priority \<^verbatim>\<open>toString\<close>, and no other field: the priority names a function that its
  counting object inherits, so no row is created for it and the list of deadlines is
  missing. The chat endpoint, which encodes the items of a request in its \<^verbatim>\<open>try\<close> block
  and again in its \<^verbatim>\<open>catch\<close> block, sends no response to a request with that item.
  \<open>createAnalyticsContext\<close>, which counts by its fixed priorities, returns for the same
  item.
\<close>

theorem encoder_raises_on_inherited_priority:
  "createTasksContext srt now
     (Some [blankItem \<lparr> priority := Some ''toString'',
              dueDate := Some \<lparr> raw = ''2025-09-25T16:59:00.000Z'',
                                 instant = Some 1758819540000 \<rparr> \<rparr>]) hi = Inl TypeError
   \<and> sent (chat srt lc parse ff now emptyMemory
        \<lparr> cr_message = Some ''hello'',
          cr_tasks = Some [blankItem \<lparr> priority := Some ''toString'',
                             dueDate := Some \<lparr> raw = ''2025-09-25T16:59:00.000Z'',
                                                instant = Some 1758819540000 \<rparr> \<rparr>],
          cr_taskStats = None, cr_userId = None \<rparr> outcome) = Unhandled TypeError
   \<and> (\<exists>ctx. createAnalyticsContext tz
         (Some [blankItem \<lparr> priority := Some ''toString'',
                  dueDate := Some \<lparr> raw = ''2025-09-25T16:59:00.000Z'',
                                     instant = Some 1758819540000 \<rparr> \<rparr>])
         (Some emptyStats) None None = Inr ctx)"
proof -
  let ?t = "blankItem \<lparr> priority := Some ''toString'',
              dueDate := Some \<lparr> raw = ''2025-09-25T16:59:00.000Z'',
                                 instant = Some 1758819540000 \<rparr> \<rparr>"
  have r: "list_ex (\<lambda>t. priorityKey t \<in> set protoMembers \<and> date_truthy (dueDate t)) [?t]"
    by (simp add: priorityKey_def item_simps protoMembers_def)
  have 1: "createTasksContext srt now (Some [?t]) hi = Inl TypeError"
    using r createTasksContext_raises [of srt now "Some [?t]" hi TypeError] by simp
  have 2: "sent (chat srt lc parse ff now emptyMemory
        \<lparr> cr_message = Some ''hello'', cr_tasks = Some [?t], cr_taskStats = None,
          cr_userId = None \<rparr> outcome) = Unhandled TypeError"
    using r chat_unhandled [of "\<lparr> cr_message = Some ''hello'', cr_tasks = Some [?t],
        cr_taskStats = None, cr_userId = None \<rparr>" "[?t]" srt lc parse ff now emptyMemory outcome]
    by (simp add: truthy_def)
  show ?thesis
    using 1 2 analyticsContext_returns [of tz "[?t]" emptyStats None None] by blast
qed

section \<open>Conversation memory: results\<close>

lemmas memory_defs =
  run_def emptyMemory_def addMessageToHistory_def getOrCreateUserHistory_def setHistory_def
  storedHistory_def MAX_HISTORY_LENGTH_def summarizeAndResetHistory_def settleSummary_def
  appendAwaited_def lastThree_def

text \<open>
  When the caller awaits each summary, an append to a history of at most five turns leaves
  the history one turn longer, or, from five turns, compacted: the one marked summary turn
  when the summarizer succeeds, the last three turns when it fails.
\<close>

lemma appendAwaited_compacts:
  assumes "length (storedHistory m u) \<le> 5"
  shows "storedHistory (appendAwaited now m u msg b outcome) u =
     (let pushed = storedHistory m u @ [\<lparr> message = msg, isUser = b, timestamp = now \<rparr>]
      in if length pushed \<le> 5 then pushed
         else (case outcome of
                 Summarized summary \<Rightarrow>
                   [\<lparr> message = Plain (summaryMarker @ summary), isUser = False, timestamp = now \<rparr>]
               | SummarizerFailed \<Rightarrow> lastThree pushed))"
  using assms
  by (cases outcome; cases "chatHistory m u")
     (auto simp: memory_defs Let_def nth_append)

lemma lastThree_length: "3 \<le> length xs \<Longrightarrow> length (lastThree xs) = 3"
  by (simp add: lastThree_def)

lemma appendAwaited_bounded:
  assumes "length (storedHistory m u) \<le> 5"
  shows "1 \<le> length (storedHistory (appendAwaited now m u msg b outcome) u)
    \<and> length (storedHistory (appendAwaited now m u msg b outcome) u) \<le> 5
    \<and> (length (storedHistory m u) = 5 \<longrightarrow>
         length (storedHistory (appendAwaited now m u msg b outcome) u) =
           (case outcome of Summarized summary \<Rightarrow> 1 | SummarizerFailed \<Rightarrow> 3))"
  using assms appendAwaited_compacts [OF assms, of now msg b outcome]
  by (cases outcome) (auto simp: Let_def lastThree_def)

text \<open>
  C2. The claim: the stored history of an identity never holds more than K + 1 = 6 turns,
  whatever the sequence of appends. The chat handler does not await the summary that the
  append of the user's message starts; it fails on the promise and appends its fallback
  reply to the same array while the summarizer is still pending. From a history of five
  turns, one chat request leaves seven turns stored and two summarizer calls pending; the
  same holds for seven appends in a row on the memory alone.
\<close>

theorem history_exceeds_six_turns:
  "length (storedHistory (memoryAfter (chat srt (\<lambda>s. s) (\<lambda>s. (None :: unit option)) False 0
       (run emptyMemory (replicate 5 (Append 0 ''u'' (Plain ''m'') True)))
       \<lparr> cr_message = Some ''hello'', cr_tasks = None, cr_taskStats = None,
         cr_userId = Some ''u'' \<rparr>
       (Replied ''ok''))) ''u'') = 7
   \<and> length (storedHistory
         (run emptyMemory (replicate 7 (Append 0 ''u'' (Plain ''m'') True))) ''u'') = 7
   \<and> length (pendingSummaries
         (run emptyMemory (replicate 7 (Append 0 ''u'' (Plain ''m'') True)))) = 2"
  by (simp add: Let_def chat_def chatCatch_def generateFallbackResponse_def
      createTasksContext_def truthy_def orElse_def memory_defs numeral_eq_Suc)

section \<open>Recommendations: results\<close>

lemma weeklyEventTime_Nil: "weeklyEventTime tz now [] = Some 0"
  by (simp add: weeklyEventTime_def)

lemma mostActiveCategory_Nil: "ma_total (mostActiveCategory []) = 0"
  by (simp add: mostActiveCategory_def categories_def count_def Let_def)

lemma fallback_of_nothing:
  "generateFallbackRecommendations tz now (Some []) (Some emptyStats) (Some emptyAccuracy) language =
     Inr [Canned (isVietnamese language) TimeTooLittle,
          Canned (isVietnamese language) TechniquePomodoro]"
  by (simp add: generateFallbackRecommendations_def Let_def weeklyEventTime_Nil
      mostActiveCategory_Nil emptyStats_def orZero_def timeAdvice_def deadlineAdvice_def
      preferenceAdvice_def closingAdvice_def num_gt_def num_lt_def num_ge_def num_le_def)

text \<open>A line that starts with the label of a fallback entry is one the parser recognises.\<close>

lemma recLabel_recognised: "recLabel vi b \<in> set labels"
  by (cases b; cases vi) (simp_all add: labels_def)

lemma timeAdvice_cases: "timeAdvice w \<in> {TimeTooMuch, TimeTooLittle, TimeBalanced}"
  by (simp add: timeAdvice_def)

lemma closingAdvice_cases: "closingAdvice w d \<in> {TimeManagementGood, TechniquePomodoro}"
  by (simp add: closingAdvice_def)

lemma fallback_shape:
  "\<exists>first middle last.
     generateFallbackRecommendations tz now (Some ts) (Some st) acc language =
       Inr (map (Canned (isVietnamese language)) (first # middle @ [last]))
     \<and> first \<in> {TimeTooMuch, TimeTooLittle, TimeBalanced}
     \<and> last \<in> {TimeManagementGood, TechniquePomodoro}"
proof -
  let ?w = "map_option (\<lambda>m. m / 60) (weeklyEventTime tz now ts)"
  let ?d = "orZero (ts_overdueTasks st)"
  have "generateFallbackRecommendations tz now (Some ts) (Some st) acc language =
       Inr (map (Canned (isVietnamese language))
         (timeAdvice ?w # (deadlineAdvice ?d @ preferenceAdvice (mostActiveCategory ts) (length ts))
            @ [closingAdvice ?w ?d]))"
    by (simp add: generateFallbackRecommendations_def Let_def)
  then show ?thesis
    using timeAdvice_cases closingAdvice_cases by blast
qed

lemma fallback_returns:
  "\<exists>recs. generateFallbackRecommendations tz now (Some ts) (Some st) acc language = Inr recs
     \<and> 2 \<le> length recs"
  using fallback_shape [of tz now ts st acc language] by auto

lemma parse_nonempty:
  "\<exists>recs. parseRecommendations tz now aiResponse language = Inr recs \<and> recs \<noteq> []"
  by (simp add: parseRecommendations_def Let_def fallback_of_nothing)

lemma parse_falls_back:
  "\<not> list_ex hasLabel (replyLines aiResponse) \<Longrightarrow> \<not> list_ex hasEmoji (replyLines aiResponse) \<Longrightarrow>
    parseRecommendations tz now aiResponse language =
      generateFallbackRecommendations tz now (Some []) (Some emptyStats) (Some emptyAccuracy) language"
  by (simp add: parseRecommendations_def Let_def list_ex_iff filter_empty_conv)

lemma language_default:
  "generateFallbackRecommendations tz now tasks stats acc
      (Some (case language of None \<Rightarrow> ''vi'' | Some l \<Rightarrow> l)) =
   generateFallbackRecommendations tz now tasks stats acc language"
  by (cases language; cases tasks; cases stats)
     (simp_all add: generateFallbackRecommendations_def isVietnamese_def)

lemma endpoint_nonempty:
  assumes "rr_tasks req = Some ts" "rr_taskStats req = Some st"
  shows "\<exists>body. recommendations ff tz now req outcome = Ok body \<and> rb_success body
           \<and> rb_recommendations body \<noteq> []"
proof -
  obtain ctx where ctx: "createAnalyticsContext tz (Some ts) (Some st) (rr_timeAccuracy req)
      (Some \<lparr> hi_heatmapData = ts_heatmapData st, hi_heatmapAnalysis = orNull (ts_heatmapAnalysis st),
               hi_weeklyEventTime = Some (orZero (ts_weeklyEventTime st)) \<rparr>) = Inr ctx"
    using analyticsContext_returns by blast
  obtain fb where fb: "generateFallbackRecommendations tz now (Some ts) (Some st)
      (rr_timeAccuracy req) (rr_language req) = Inr fb" "2 \<le> length fb"
    using fallback_returns by blast
  then have fbne: "fb \<noteq> []" by auto
  show ?thesis
  proof (cases outcome)
    case (Replied t)
    obtain rs where "parseRecommendations tz now t
      (Some (case rr_language req of None \<Rightarrow> ''vi'' | Some l \<Rightarrow> l)) = Inr rs" "rs \<noteq> []"
      using parse_nonempty by blast
    then show ?thesis
      using assms ctx fb fbne Replied
      by (simp add: recommendations_def recInnerCatch_def recOuterCatch_def Let_def language_default)
  next
    case ModelFailed
    then show ?thesis
      using assms ctx fb fbne
      by (simp add: recommendations_def recInnerCatch_def recOuterCatch_def Let_def language_default)
  next
    case ModelTimedOut
    then show ?thesis
      using assms ctx fb fbne
      by (simp add: recommendations_def recInnerCatch_def recOuterCatch_def Let_def language_default)
  qed
qed

text \<open>
  C10. \<open>parseRecommendations\<close> never returns an empty list: when no line of the reply has a
  recognised label and none has a known emoji, it returns the fallback for no items, which
  is the entry on too little time followed by the Pomodoro technique. The fallback generator
  returns, for every collection and every aggregate, a time-usage entry first and a
  time-management or technique entry last, so at least two entries. The endpoint answers
  every request that has its two required fields with a non-empty list.
\<close>

theorem recommendations_never_empty:
  "(\<exists>recs. parseRecommendations tz now aiResponse language = Inr recs \<and> recs \<noteq> [])
   \<and> (\<not> list_ex hasLabel (replyLines aiResponse) \<and> \<not> list_ex hasEmoji (replyLines aiResponse)
        \<longrightarrow> parseRecommendations tz now aiResponse language =
              Inr [Canned (isVietnamese language) TimeTooLittle,
                   Canned (isVietnamese language) TechniquePomodoro])
   \<and> (\<exists>first middle last.
        generateFallbackRecommendations tz now (Some ts) (Some st) acc language =
          Inr (map (Canned (isVietnamese language)) (first # middle @ [last]))
        \<and> first \<in> {TimeTooMuch, TimeTooLittle, TimeBalanced}
        \<and> last \<in> {TimeManagementGood, TechniquePomodoro})
   \<and> (rr_tasks req \<noteq> None \<and> rr_taskStats req \<noteq> None
        \<longrightarrow> (\<exists>body. recommendations ff tz now req outcome = Ok body \<and> rb_success body
                \<and> rb_recommendations body \<noteq> []))"
  using parse_nonempty [of tz now aiResponse language]
    parse_falls_back [of aiResponse tz now language]
    fallback_of_nothing [of tz now language]
    fallback_shape [of tz now ts st acc language]
    endpoint_nonempty [of req _ _ ff tz now outcome]
  by auto

theorem recommendations_never_empty_witness:
  "parseRecommendations 0 0 ''Keep going, you are doing fine.'' (Some ''en'') =
     Inr [Canned False TimeTooLittle, Canned False TechniquePomodoro]
   \<and> (\<exists>body. recommendations False 0 0
         \<lparr> rr_tasks = Some [], rr_taskStats = Some emptyStats, rr_timeAccuracy = None,
           rr_language = None \<rparr> ModelTimedOut = Ok body
        \<and> rb_success body \<and> rb_recommendations body \<noteq> [])"
proof -
  have 1: "\<not> list_ex hasLabel (replyLines ''Keep going, you are doing fine.'')"
    by code_simp
  have 2: "\<not> list_ex hasEmoji (replyLines ''Keep going, you are doing fine.'')"
    by code_simp
  show ?thesis
    using 1 2
      recommendations_never_empty [of 0 0 "''Keep going, you are doing fine.''" "Some ''en''"
        "[]" emptyStats None
        "\<lparr> rr_tasks = Some [], rr_taskStats = Some emptyStats, rr_timeAccuracy = None,
           rr_language = None \<rparr>" False ModelTimedOut]
    by (simp add: isVietnamese_def)
qed

section \<open>The endpoints: results\<close>





lemma add_no_summary:
  "(snd (addMessageToHistory now m u msg b) = NoSummary) = (length (storedHistory m u) < 5)"
  by (auto simp: memory_defs Let_def split: option.splits)

text \<open>
  The handler calls the external model exactly for a request with a message, made while
  fewer than five turns are stored for its user and the fallback mode is off, whose items
  \<open>createTasksContext\<close> encodes.
\<close>

lemma modelCalled_iff:
  "modelCalled (chat srt lc parse ff now m req outcome) =
     (truthy (cr_message req)
      \<and> length (storedHistory m (case cr_userId req of None \<Rightarrow> ''default'' | Some u \<Rightarrow> u)) < 5
      \<and> \<not> ff
      \<and> (\<exists>ctx. createTasksContext srt now
                 (case cr_tasks req of None \<Rightarrow> Some [] | Some ts \<Rightarrow> Some ts)
                 (Some \<lparr> hi_heatmapData = Option.bind (cr_taskStats req) ts_heatmapData,
                         hi_heatmapAnalysis =
                           orNull (Option.bind (cr_taskStats req) ts_heatmapAnalysis),
                         hi_weeklyEventTime = None \<rparr>) = Inr ctx))"
  using add_no_summary [of now m "case cr_userId req of None \<Rightarrow> ''default'' | Some u \<Rightarrow> u"
      "Plain (the (cr_message req))" True]
  by (cases outcome)
     (auto simp: chat_def chatCatch_def Let_def
       split: prod.splits summaryResult.splits sum.splits)





section \<open>Fenced blocks: results\<close>

lemma startsWith_append: "startsWith (p @ s) p"
  by (induction p) simp_all

lemma startsWith_drop: "startsWith s p \<Longrightarrow> s = p @ drop (length p) s"
  by (induction s p rule: startsWith.induct) simp_all

text \<open>\<open>splitAtFirst\<close> cuts at an occurrence of the pattern, and at the first one.\<close>

lemma splitAtFirst_cut: "splitAtFirst pat s = Some (a, b) \<Longrightarrow> s = a @ pat @ b"
proof (induction s arbitrary: a)
  case Nil
  then show ?case by simp
next
  case (Cons c cs)
  show ?case
  proof (cases "startsWith (c # cs) pat")
    case True
    then show ?thesis using Cons.prems startsWith_drop [OF True] by simp
  next
    case False
    then obtain a0 where "splitAtFirst pat cs = Some (a0, b)" "a = c # a0"
      using Cons.prems by auto
    then show ?thesis using Cons.IH by simp
  qed
qed

lemma splitAtFirst_first:
  "splitAtFirst pat s = Some (a, b) \<Longrightarrow> s = a' @ pat @ b' \<Longrightarrow> length a \<le> length a'"
proof (induction s arbitrary: a a')
  case Nil
  then show ?case by simp
next
  case (Cons c cs)
  show ?case
  proof (cases "startsWith (c # cs) pat")
    case True
    then have "a = []" using Cons.prems(1) by simp
    then show ?thesis by simp
  next
    case False
    then obtain a0 where a0: "splitAtFirst pat cs = Some (a0, b)" "a = c # a0"
      using Cons.prems(1) by auto
    have "a' \<noteq> []"
      using False Cons.prems(2) startsWith_append [of pat b'] by (cases a') auto
    then obtain a1 where a1: "a' = c # a1" "cs = a1 @ pat @ b'"
      using Cons.prems(2) by (cases a') auto
    then show ?thesis using Cons.IH [OF a0(1) a1(2)] a0(2) by simp
  qed
qed

text \<open>
  \<open>dropLeading\<close> removes sequences of the list, and what it leaves starts with none of
  them.
\<close>

lemma leading_Some: "leading ws s = Some w \<Longrightarrow> w \<in> set ws \<and> s = w @ drop (length w) s"
  by (auto simp: leading_def find_Some_iff dest: startsWith_drop)

lemma dropLeading_cut: "\<exists>sp. set sp \<subseteq> set ws \<and> s = concat sp @ dropLeading ws s"
proof (induction ws s rule: dropLeading.induct)
  case (1 ws s)
  show ?case
  proof (cases "leading ws s")
    case None
    then have "set [] \<subseteq> set ws \<and> s = concat [] @ dropLeading ws s"
      by (simp add: dropLeading.simps [of ws s])
    then show ?thesis by blast
  next
    case (Some w)
    then obtain sp where sp: "set sp \<subseteq> set ws"
      "drop (length w) s = concat sp @ dropLeading ws (drop (length w) s)"
      using 1 by blast
    have w: "w \<in> set ws" "s = w @ drop (length w) s"
      using leading_Some [OF Some] by blast+
    have "set (w # sp) \<subseteq> set ws \<and> s = concat (w # sp) @ dropLeading ws s"
      using sp w Some by (simp add: dropLeading.simps [of ws s])
    then show ?thesis by blast
  qed
qed

lemma dropLeading_done: "leading ws (dropLeading ws s) = None"
proof (induction ws s rule: dropLeading.induct)
  case (1 ws s)
  show ?case
  proof (cases "leading ws s")
    case None
    then show ?thesis by (simp add: dropLeading.simps [of ws s])
  next
    case (Some w)
    then show ?thesis using 1 [OF Some] by (simp add: dropLeading.simps [of ws s])
  qed
qed

lemma trimStart_cut: "\<exists>sp. set sp \<subseteq> set whiteSpace \<and> s = concat sp @ trimStart s"
  unfolding trimStart_def by (rule dropLeading_cut)

lemma trimEnd_cut: "\<exists>sp. set sp \<subseteq> set whiteSpace \<and> s = trimEnd s @ concat sp"
proof -
  obtain sp where sp: "set sp \<subseteq> set (map rev whiteSpace)"
    "rev s = concat sp @ dropLeading (map rev whiteSpace) (rev s)"
    using dropLeading_cut by blast
  have "rev (rev s) = rev (dropLeading (map rev whiteSpace) (rev s)) @ rev (concat sp)"
    by (subst sp(2)) simp
  then have "s = trimEnd s @ concat (map rev (rev sp))"
    by (simp add: trimEnd_def rev_concat)
  moreover have "set (map rev (rev sp)) \<subseteq> set whiteSpace"
    using sp(1) by auto
  ultimately show ?thesis by blast
qed

lemma trimEnd_done: "leading (map rev whiteSpace) (rev (trimEnd s)) = None"
  by (simp add: trimEnd_def dropLeading_done)

text \<open>
  The block that the pattern finds. The text is cut at the first opening fence with the
  tag; white space follows; what is left starts with no white space and is cut at its first
  fence; the block is what stands before that fence, without the white space at its end.
\<close>

lemma jsonMatchRest_shape:
  assumes "jsonMatchRest s = Some (body, rest)"
  shows "\<exists>before sp sp'.
     s = before @ ''```json'' @ concat sp @ body @ concat sp' @ ''```'' @ rest
     \<and> set sp \<subseteq> set whiteSpace \<and> set sp' \<subseteq> set whiteSpace
     \<and> (\<forall>a b. s = a @ ''```json'' @ b \<longrightarrow> length before \<le> length a)
     \<and> leading whiteSpace (body @ concat sp' @ ''```'' @ rest) = None
     \<and> (\<forall>a b. body @ concat sp' @ ''```'' @ rest = a @ ''```'' @ b \<longrightarrow>
            length (body @ concat sp') \<le> length a)
     \<and> leading (map rev whiteSpace) (rev body) = None"
proof -
  from assms obtain before afterTag inner where
    1: "splitAtFirst ''```json'' s = Some (before, afterTag)" and
    2: "splitAtFirst ''```'' (trimStart afterTag) = Some (inner, rest)" and
    3: "body = trimEnd inner"
    by (auto simp: jsonMatchRest_def split: option.splits prod.splits)
  obtain sp where sp: "set sp \<subseteq> set whiteSpace" "afterTag = concat sp @ trimStart afterTag"
    using trimStart_cut by blast
  obtain sp' where sp': "set sp' \<subseteq> set whiteSpace" "inner = body @ concat sp'"
    using trimEnd_cut [of inner] 3 by blast
  have t: "trimStart afterTag = inner @ ''```'' @ rest"
    using 2 by (rule splitAtFirst_cut)
  have s: "s = before @ ''```json'' @ concat sp @ body @ concat sp' @ ''```'' @ rest"
    using splitAtFirst_cut [OF 1] sp(2) t sp'(2) by simp
  have first: "\<forall>a b. s = a @ ''```json'' @ b \<longrightarrow> length before \<le> length a"
    using splitAtFirst_first [OF 1] by blast
  have nosp: "leading whiteSpace (body @ concat sp' @ ''```'' @ rest) = None"
    using dropLeading_done [of whiteSpace afterTag] t sp'(2) by (simp add: trimStart_def)
  have fence: "\<forall>a b. body @ concat sp' @ ''```'' @ rest = a @ ''```'' @ b \<longrightarrow>
      length (body @ concat sp') \<le> length a"
    using splitAtFirst_first [OF 2] t sp'(2) by simp
  have trimmed: "leading (map rev whiteSpace) (rev body) = None"
    unfolding 3 by (rule trimEnd_done)
  from s sp(1) sp'(1) first nosp fence trimmed show ?thesis by blast
qed

lemma parsedBlocks_first: "parsedBlocks t = take 1 (allJsonBlocks t)"
  by (simp add: parsedBlocks_def jsonMatch_def allJsonBlocks.simps [of t]
      split: option.splits prod.splits)

lemma chat_success:
  assumes "modelCalled (chat srt lc parse ff now m req (Replied t))"
  shows "sent (chat srt lc parse ff now m req (Replied t)) =
      Ok \<lparr> cb_success = True, cb_response = Plain t, cb_timestamp = now, cb_note = None,
           cb_debug = None \<rparr>
    \<and> logged (chat srt lc parse ff now m req (Replied t)) = Some (extractJson parse t)"
  using assms
  by (auto simp: chat_def chatCatch_def Let_def
      split: prod.splits summaryResult.splits sum.splits if_splits)


lemma jsonMatch_shape:
  assumes "jsonMatch s = Some body"
  shows "\<exists>before sp sp' rest.
     s = before @ ''```json'' @ concat sp @ body @ concat sp' @ ''```'' @ rest
     \<and> set sp \<subseteq> set whiteSpace \<and> set sp' \<subseteq> set whiteSpace
     \<and> (\<forall>a b. s = a @ ''```json'' @ b \<longrightarrow> length before \<le> length a)
     \<and> leading whiteSpace (body @ concat sp' @ ''```'' @ rest) = None
     \<and> (\<forall>a b. body @ concat sp' @ ''```'' @ rest = a @ ''```'' @ b \<longrightarrow>
            length (body @ concat sp') \<le> length a)
     \<and> leading (map rev whiteSpace) (rev body) = None"
proof -
  from assms obtain rest where "jsonMatchRest s = Some (body, rest)"
    by (auto simp: jsonMatch_def)
  from jsonMatchRest_shape [OF this] show ?thesis by blast
qed

text \<open>
  C1, as the code has it. The chat handler reads at most one fenced block of the reply and
  hands it to the parser for the console log alone: the block after the first opening fence
  tagged json, up to the next fence, without the white space around it. Nothing is validated
  and nothing is discarded: whenever the handler has called the model and the model
  replies, the answer is the reply text unchanged, with no list of actions, whatever the
  parser makes of the block. The model is called for a request with a message, made while
  fewer than five turns are stored for its user and the fallback mode is off, whose items
  \<open>createTasksContext\<close> encodes.
\<close>

theorem extraction_reads_first_block_only:
  "parsedBlocks aiResponse = take 1 (allJsonBlocks aiResponse)
   \<and> (jsonMatch aiResponse = Some body \<longrightarrow>
        (\<exists>before sp sp' rest.
           aiResponse = before @ ''```json'' @ concat sp @ body @ concat sp' @ ''```'' @ rest
           \<and> set sp \<subseteq> set whiteSpace \<and> set sp' \<subseteq> set whiteSpace
           \<and> (\<forall>a b. aiResponse = a @ ''```json'' @ b \<longrightarrow> length before \<le> length a)
           \<and> leading whiteSpace (body @ concat sp' @ ''```'' @ rest) = None
           \<and> (\<forall>a b. body @ concat sp' @ ''```'' @ rest = a @ ''```'' @ b \<longrightarrow>
                  length (body @ concat sp') \<le> length a)
           \<and> leading (map rev whiteSpace) (rev body) = None))
   \<and> (modelCalled (chat srt lc parse ff now m req (Replied aiResponse))
      \<longrightarrow> sent (chat srt lc parse ff now m req (Replied aiResponse)) =
            Ok \<lparr> cb_success = True, cb_response = Plain aiResponse, cb_timestamp = now,
                 cb_note = None, cb_debug = None \<rparr>
          \<and> logged (chat srt lc parse ff now m req (Replied aiResponse)) =
              Some (extractJson parse aiResponse))
   \<and> modelCalled (chat srt lc parse ff now m req (Replied aiResponse)) =
       (truthy (cr_message req)
        \<and> length (storedHistory m (case cr_userId req of None \<Rightarrow> ''default'' | Some u \<Rightarrow> u)) < 5
        \<and> \<not> ff
        \<and> (\<exists>ctx. createTasksContext srt now
                   (case cr_tasks req of None \<Rightarrow> Some [] | Some ts \<Rightarrow> Some ts)
                   (Some \<lparr> hi_heatmapData = Option.bind (cr_taskStats req) ts_heatmapData,
                           hi_heatmapAnalysis =
                             orNull (Option.bind (cr_taskStats req) ts_heatmapAnalysis),
                           hi_weeklyEventTime = None \<rparr>) = Inr ctx))"
  using parsedBlocks_first [of aiResponse] jsonMatch_shape [of aiResponse body]
    chat_success [of srt lc parse ff now m req aiResponse]
    modelCalled_iff [of srt lc parse ff now m req "Replied aiResponse"]
  by blast

theorem extraction_reads_first_block_only_witness:
  \<open>parsedBlocks ''Done.\<newline>```json\<newline>{"action":"delete_task","taskId":"t1"}\<newline>```\<newline>''
     = [''{"action":"delete_task","taskId":"t1"}'']
   \<and> jsonMatch ''Done.\<newline>```json\<newline>{"action":"delete_task","taskId":"t1"}\<newline>```\<newline>''
     = Some ''{"action":"delete_task","taskId":"t1"}''
   \<and> modelCalled (chat stableSort (\<lambda>s. s) (\<lambda>s. Some s) False 0 emptyMemory
        \<lparr> cr_message = Some ''delete it'', cr_tasks = None, cr_taskStats = None,
          cr_userId = None \<rparr>
        (Replied ''Done.\<newline>```json\<newline>{"action":"delete_task","taskId":"t1"}\<newline>```\<newline>''))
   \<and> sent (chat stableSort (\<lambda>s. s) (\<lambda>s. Some s) False 0 emptyMemory
        \<lparr> cr_message = Some ''delete it'', cr_tasks = None, cr_taskStats = None,
          cr_userId = None \<rparr>
        (Replied ''Done.\<newline>```json\<newline>{"action":"delete_task","taskId":"t1"}\<newline>```\<newline>'')) =
       Ok \<lparr> cb_success = True,
            cb_response = Plain ''Done.\<newline>```json\<newline>{"action":"delete_task","taskId":"t1"}\<newline>```\<newline>'',
            cb_timestamp = 0, cb_note = None, cb_debug = None \<rparr>
   \<and> logged (chat stableSort (\<lambda>s. s) (\<lambda>s. Some s) False 0 emptyMemory
        \<lparr> cr_message = Some ''delete it'', cr_tasks = None, cr_taskStats = None,
          cr_userId = None \<rparr>
        (Replied ''Done.\<newline>```json\<newline>{"action":"delete_task","taskId":"t1"}\<newline>```\<newline>'')) =
       Some (ExtractedJson ''{"action":"delete_task","taskId":"t1"}'')\<close>
proof -
  let ?t = \<open>''Done.\<newline>```json\<newline>{"action":"delete_task","taskId":"t1"}\<newline>```\<newline>''\<close>
  let ?req = "\<lparr> cr_message = Some ''delete it'', cr_tasks = None, cr_taskStats = None,
      cr_userId = None \<rparr>"
  have 1: \<open>allJsonBlocks ?t = [''{"action":"delete_task","taskId":"t1"}'']\<close>
    by code_simp
  have 2: \<open>jsonMatch ?t = Some ''{"action":"delete_task","taskId":"t1"}''\<close>
    by code_simp
  have ret: "\<exists>ctx. createTasksContext stableSort 0 (Some [])
      (Some \<lparr> hi_heatmapData = None, hi_heatmapAnalysis = None, hi_weeklyEventTime = None \<rparr>)
      = Inr ctx"
    by (simp add: createTasksContext_def)
  have hyp: "truthy (cr_message ?req)
      \<and> length (storedHistory emptyMemory
            (case cr_userId ?req of None \<Rightarrow> ''default'' | Some u \<Rightarrow> u)) < 5
      \<and> \<not> False
      \<and> (\<exists>ctx. createTasksContext stableSort 0
               (case cr_tasks ?req of None \<Rightarrow> Some [] | Some ts \<Rightarrow> Some ts)
               (Some \<lparr> hi_heatmapData = Option.bind (cr_taskStats ?req) ts_heatmapData,
                       hi_heatmapAnalysis =
                         orNull (Option.bind (cr_taskStats ?req) ts_heatmapAnalysis),
                       hi_weeklyEventTime = None \<rparr>) = Inr ctx)"
    using ret by (simp add: truthy_def storedHistory_def emptyMemory_def orNull_def)
  note inst = extraction_reads_first_block_only [of ?t
      \<open>''{"action":"delete_task","taskId":"t1"}''\<close> stableSort "\<lambda>s. s" "\<lambda>s. Some s" False 0
      emptyMemory ?req]
  have m: "modelCalled (chat stableSort (\<lambda>s. s) (\<lambda>s. Some s) False 0 emptyMemory ?req
      (Replied ?t))"
    using hyp inst by blast
  have p: \<open>parsedBlocks ?t = [''{"action":"delete_task","taskId":"t1"}'']\<close>
    using inst 1 by simp
  have e: \<open>extractJson (\<lambda>s. Some s) ?t = ExtractedJson ''{"action":"delete_task","taskId":"t1"}''\<close>
    using 2 by (simp add: extractJson_def)
  show ?thesis
    using m p 2 e inst by simp
qed

text \<open>
  C1, as the claim states it, fails: in a reply with a valid delete block followed by a
  create block without a category, the handler reads the delete block and never the second
  block, which a scan of all blocks would find.
\<close>

theorem second_block_never_read:
  \<open>parsedBlocks
     ''OK.\<newline>```json\<newline>{"action":"delete_task","taskId":"t1"}\<newline>```\<newline>```json\<newline>{"action":"create_task","taskData":{"title":"Math","type":"task"}}\<newline>```\<newline>''
     = [''{"action":"delete_task","taskId":"t1"}'']
   \<and> allJsonBlocks
     ''OK.\<newline>```json\<newline>{"action":"delete_task","taskId":"t1"}\<newline>```\<newline>```json\<newline>{"action":"create_task","taskData":{"title":"Math","type":"task"}}\<newline>```\<newline>''
     = [''{"action":"delete_task","taskId":"t1"}'',
        ''{"action":"create_task","taskData":{"title":"Math","type":"task"}}'']
   \<and> parsedBlocks
     ''OK.\<newline>```json\<newline>{"action":"delete_task","taskId":"t1"}\<newline>```\<newline>```json\<newline>{"action":"create_task","taskData":{"title":"Math","type":"task"}}\<newline>```\<newline>''
     \<noteq> allJsonBlocks
     ''OK.\<newline>```json\<newline>{"action":"delete_task","taskId":"t1"}\<newline>```\<newline>```json\<newline>{"action":"create_task","taskData":{"title":"Math","type":"task"}}\<newline>```\<newline>''\<close>
  by code_simp

section \<open>The conversion of clock times: results\<close>

text \<open>
  The date anchors of the prompt at 18:30 UTC on 2 November 2026, which is already
  3 November in Vietnam.
\<close>

lemma date_anchors_example:
  "currentDate 1793644200000 = ''2026-11-03'' \<and> tomorrowDate 1793644200000 = ''2026-11-04''"
  by code_simp

lemma day_split:
  fixes d r :: int
  assumes "0 \<le> r" "r < 1440"
  shows "(d * 1440 + r) div 1440 = d" "(d * 1440 + r) mod 1440 = r"
    "(d * 1440 + r) mod 60 = r mod 60"
proof -
  show "(d * 1440 + r) div 1440 = d" using assms by simp
  show "(d * 1440 + r) mod 1440 = r" using assms by simp
  have "(d * 1440 + r) = (d * 24) * 60 + r" by simp
  then show "(d * 1440 + r) mod 60 = r mod 60" by (simp only: mod_mult_self3)
qed

lemma hour_split:
  fixes k m :: int
  assumes "0 \<le> m" "m < 60"
  shows "(k * 60 + m) div 60 = k" "(k * 60 + m) mod 60 = m"
  using assms by simp_all

lemma clock_after_seven:
  assumes "7 \<le> h" "h < 24" "mi < 60"
  shows "utcDay (localClockToAbsolute 420 d h mi) = d"
    "utcHour (localClockToAbsolute 420 d h mi) = int h - 7"
    "utcMinute (localClockToAbsolute 420 d h mi) = int mi"
proof -
  define r where "r = (int h - 7) * 60 + int mi"
  have r: "0 \<le> r" "r < 1440" using assms by (simp_all add: r_def)
  have a: "localClockToAbsolute 420 d h mi = d * 1440 + r"
    by (simp add: localClockToAbsolute_def r_def algebra_simps)
  have m: "0 \<le> int mi" "int mi < 60" using assms by simp_all
  have hs: "r div 60 = int h - 7" "r mod 60 = int mi"
    unfolding r_def using hour_split [OF m] by blast+
  show "utcDay (localClockToAbsolute 420 d h mi) = d"
    "utcHour (localClockToAbsolute 420 d h mi) = int h - 7"
    "utcMinute (localClockToAbsolute 420 d h mi) = int mi"
    unfolding utcDay_def utcHour_def utcMinute_def a day_split [OF r] hs by simp_all
qed

lemma clock_before_seven:
  assumes "h < 7" "mi < 60"
  shows "utcDay (localClockToAbsolute 420 d h mi) = d - 1"
    "utcHour (localClockToAbsolute 420 d h mi) = int h + 17"
    "utcMinute (localClockToAbsolute 420 d h mi) = int mi"
proof -
  define r where "r = (int h + 17) * 60 + int mi"
  have r: "0 \<le> r" "r < 1440" using assms by (simp_all add: r_def)
  have a: "localClockToAbsolute 420 d h mi = (d - 1) * 1440 + r"
    by (simp add: localClockToAbsolute_def r_def algebra_simps)
  have m: "0 \<le> int mi" "int mi < 60" using assms by simp_all
  have hs: "r div 60 = int h + 17" "r mod 60 = int mi"
    unfolding r_def using hour_split [OF m] by blast+
  show "utcDay (localClockToAbsolute 420 d h mi) = d - 1"
    "utcHour (localClockToAbsolute 420 d h mi) = int h + 17"
    "utcMinute (localClockToAbsolute 420 d h mi) = int mi"
    unfolding utcDay_def utcHour_def utcMinute_def a day_split [OF r] hs by simp_all
qed

lemma prompt_conversions_agree:
  "list_all (\<lambda>(vn, utc). utcDay (localClockToAbsolute 420 d vn 0) = d
      \<and> utcHour (localClockToAbsolute 420 d vn 0) = int utc
      \<and> utcMinute (localClockToAbsolute 420 d vn 0) = 0) promptConversions"
  by (simp add: promptConversions_def localClockToAbsolute_def utcDay_def utcHour_def utcMinute_def)

lemma stamp_same_day:
  assumes "7 \<le> h" "h < 24" "mi < 60"
  shows "isoStamp (localClockToAbsolute 420 d h mi) =
     isoDate (civil d) @ ''T'' @ padStart2 (show_int (int h - 7)) @ '':'' @
     padStart2 (show_int (int mi)) @ '':00.000Z''"
  using clock_after_seven [OF assms, of d] by (simp add: isoStamp_def)

lemma prompt_stamps_agree:
  "list_all (\<lambda>((tomorrow, h, mi), stamp).
       stamp = isoStamp (localClockToAbsolute 420 (vnDay now + (if tomorrow then 1 else 0)) h mi))
     (promptStamps now)"
  by (simp add: promptStamps_def stamp_same_day currentDate_def tomorrowDate_def vnDay_def
      show_simps padStart2_def)

text \<open>
  C4. With the offset of +7:00 (420 minutes), the instant of a local date and clock time is
  that date and time less exactly seven hours: the minute is kept, a time from 07:00 on
  falls on the same calendar date seven hours earlier, a time before 07:00 on the previous
  date seventeen hours later, and local 11:00 is 04:00 of the same date. Every conversion
  that the rules of the prompt write out is the one this gives, and so is every timestamp
  that the prompt builds from its date anchors.
\<close>

theorem local_clock_less_offset:
  "localClockToAbsolute 420 d h mi + 420 = d * 1440 + int h * 60 + int mi
   \<and> (h < 24 \<and> mi < 60 \<longrightarrow>
        utcMinute (localClockToAbsolute 420 d h mi) = int mi
        \<and> (if 7 \<le> h
            then utcDay (localClockToAbsolute 420 d h mi) = d
               \<and> utcHour (localClockToAbsolute 420 d h mi) = int h - 7
            else utcDay (localClockToAbsolute 420 d h mi) = d - 1
               \<and> utcHour (localClockToAbsolute 420 d h mi) = int h + 17))
   \<and> utcDay (localClockToAbsolute 420 d 11 0) = d
   \<and> utcHour (localClockToAbsolute 420 d 11 0) = 4
   \<and> utcMinute (localClockToAbsolute 420 d 11 0) = 0
   \<and> list_all (\<lambda>(vn, utc). utcDay (localClockToAbsolute 420 d vn 0) = d
        \<and> utcHour (localClockToAbsolute 420 d vn 0) = int utc
        \<and> utcMinute (localClockToAbsolute 420 d vn 0) = 0) promptConversions
   \<and> list_all (\<lambda>((tomorrow, h, mi), stamp).
          stamp = isoStamp (localClockToAbsolute 420 (vnDay now + (if tomorrow then 1 else 0)) h mi))
        (promptStamps now)"
proof -
  have 1: "localClockToAbsolute 420 d h mi + 420 = d * 1440 + int h * 60 + int mi"
    by (simp add: localClockToAbsolute_def)
  have 2: "utcDay (localClockToAbsolute 420 d 11 0) = d
     \<and> utcHour (localClockToAbsolute 420 d 11 0) = 4
     \<and> utcMinute (localClockToAbsolute 420 d 11 0) = 0"
    by (simp add: localClockToAbsolute_def utcDay_def utcHour_def utcMinute_def)
  have 3: "utcMinute (localClockToAbsolute 420 d h mi) = int mi
        \<and> (if 7 \<le> h
            then utcDay (localClockToAbsolute 420 d h mi) = d
               \<and> utcHour (localClockToAbsolute 420 d h mi) = int h - 7
            else utcDay (localClockToAbsolute 420 d h mi) = d - 1
               \<and> utcHour (localClockToAbsolute 420 d h mi) = int h + 17)"
    if "h < 24" "mi < 60"
  proof (cases "7 \<le> h")
    case True
    then show ?thesis using clock_after_seven [OF True that] by simp
  next
    case False
    then have "h < 7" by simp
    then show ?thesis using clock_before_seven [OF _ that(2), of h d] by simp
  qed
  show ?thesis
    using 1 2 3 prompt_conversions_agree [of d] prompt_stamps_agree [of now] by blast
qed

theorem local_clock_less_offset_witness:
  "utcDay (localClockToAbsolute 420 20394 3 30) = 20393
   \<and> utcHour (localClockToAbsolute 420 20394 3 30) = 20
   \<and> utcMinute (localClockToAbsolute 420 20394 3 30) = 30"
  using local_clock_less_offset [of 20394 3 30 0]
  by (simp add: utcDay_def utcHour_def utcMinute_def)

end
